theory Spec2Isabelle
  imports Main "HOL-Library.Sublist"
begin

section \<open>Strings\<close>

text \<open>
  A JavaScript string is modelled as a \<open>string\<close> (a list of 8-bit characters). Text
  outside ASCII stands for its UTF-8 bytes. All the patterns the program searches for are
  ASCII, so \<open>includes\<close>, \<open>split\<close> and the index reads \<open>line[0]\<close>, \<open>line[1]\<close> agree with
  the source on every line whose first characters are ASCII. White space is the ASCII
  white space; the Unicode spaces that \<open>trim\<close> and \<open>\s\<close> also accept are outside the model.
  Numbers are natural numbers: \<open>parseInt\<close> is exact, as the source is on every count that
  fits a double.
\<close>

definition isWhiteSpace :: "char \<Rightarrow> bool" where
  "isWhiteSpace c =
     (c = CHR '' '' \<or> c = CHR 0x09 \<or> c = CHR 0x0A \<or> c = CHR 0x0B \<or> c = CHR 0x0C \<or> c = CHR 0x0D)"

definition notSpace :: "char \<Rightarrow> bool" where
  "notSpace c = (\<not> isWhiteSpace c)"

definition isDigit :: "char \<Rightarrow> bool" where
  "isDigit c = List.member ''0123456789'' c"

text \<open>\<open>s.trim()\<close>\<close>

definition trim :: "string \<Rightarrow> string" where
  "trim s = rev (dropWhile isWhiteSpace (rev (dropWhile isWhiteSpace s)))"

text \<open>\<open>s.includes(sub)\<close>\<close>

fun str_includes :: "string \<Rightarrow> string \<Rightarrow> bool" where
  "str_includes [] sub = (sub = [])"
| "str_includes (c # cs) sub = (prefix sub (c # cs) \<or> str_includes cs sub)"

text \<open>\<open>s.split(d)\<close> for a separator of one character.\<close>

fun split :: "char \<Rightarrow> string \<Rightarrow> string list" where
  "split d [] = [[]]"
| "split d (c # cs) =
     (if c = d then [] # split d cs
      else (case split d cs of [] \<Rightarrow> [[c]] | l # ls \<Rightarrow> (c # l) # ls))"

text \<open>The pieces put together again with the separator between them.\<close>

fun joinWith :: "char \<Rightarrow> string list \<Rightarrow> string" where
  "joinWith d [] = []"
| "joinWith d [l] = l"
| "joinWith d (l # ls) = l @ d # joinWith d ls"

text \<open>\<open>s.split(sep)[0]\<close>: the part of \<open>s\<close> before the first occurrence of \<open>sep\<close>.\<close>

fun splitFirst :: "string \<Rightarrow> string \<Rightarrow> string" where
  "splitFirst sep [] = []"
| "splitFirst sep (c # cs) = (if prefix sep (c # cs) then [] else c # splitFirst sep cs)"

text \<open>\<open>s.trim().split('\n').filter(Boolean)\<close>: the non-empty lines of the trimmed text.\<close>

definition nonEmptyLines :: "string \<Rightarrow> string list" where
  "nonEmptyLines s = filter (\<lambda>l. l \<noteq> []) (split (CHR 0x0A) (trim s))"

text \<open>\<open>s[i]\<close>, which is \<open>undefined\<close> (here \<open>None\<close>) beyond the end of the string.\<close>

definition charAt :: "string \<Rightarrow> nat \<Rightarrow> char option" where
  "charAt s i = (if i < length s then Some (s ! i) else None)"

text \<open>\<open>parseInt\<close> on a string of decimal digits.\<close>

definition digitValue :: "char \<Rightarrow> nat" where
  "digitValue c = of_char c - 48"

definition parseInt :: "string \<Rightarrow> nat" where
  "parseInt ds = foldl (\<lambda>n c. 10 * n + digitValue c) 0 ds"

section \<open>Types (src/src/git/types.ts)\<close>

record GitStatus =
  isRepo :: bool
  branch :: string
  ahead :: nat
  behind :: nat
  staged :: "string list"
  modified :: "string list"
  untracked :: "string list"
  conflicts :: "string list"
  clean :: bool

text \<open>
  \<open>GitError\<close>: an \<open>Error\<close> with optional \<open>code\<close>, \<open>stderr\<close> and \<open>stdout\<close>. The errors
  thrown by the process runner have the same shape.
\<close>

record GitError =
  message :: string
  code :: "string option"
  stderr :: "string option"
  stdout :: "string option"

record ExecResult =
  out_stdout :: string
  out_stderr :: string

record PullResult =
  pull_success :: bool
  pull_message :: string
  pull_files :: "string list"
  pull_conflicts :: "string list"

record PushResult =
  push_success :: bool
  push_message :: string
  pushed :: nat

record CommitResult =
  commit_success :: bool
  commit_message :: string
  commit_files :: nat

record SyncResult =
  sync_success :: bool
  sync_message :: string
  sync_pulled :: "nat option"
  sync_pushed :: "nat option"
  sync_conflicts :: "string list option"

datatype SyncStatus = idle | syncing | pulling | pushing | committing | error | conflict | success

section \<open>The process runner\<close>

text \<open>
  \<open>execAsync\<close> runs a command line in an external process. The outside world is a
  function from the command lines run so far and the one to run now to either an error
  or the captured output; a timeout or an overflowing buffer is one of the errors. The
  working directory, the buffer size and the timeout that the executor passes along are
  the same in every call and are left out. The state threaded through every operation is
  the list of command lines run so far.

  Every operation is modelled as running to its end. A call that arrives while a full sync
  is suspended at one of its \<open>await\<close> points is a call in a state whose lock is held.
\<close>

type_synonym shell = "string list \<Rightarrow> string \<Rightarrow> GitError + ExecResult"

type_synonym ('a, 's) op = "'s \<Rightarrow> (GitError + 'a) \<times> 's"

type_synonym 'a git = "('a, string list) op"

definition execAsync :: "shell \<Rightarrow> string \<Rightarrow> ExecResult git" where
  "execAsync sh cmd l = (sh l cmd, l @ [cmd])"

text \<open>Sequencing of operations that may throw, \<open>try ... catch\<close> and \<open>finally\<close>, over any state.\<close>

definition bindE :: "('a, 's) op \<Rightarrow> ('a \<Rightarrow> ('b, 's) op) \<Rightarrow> ('b, 's) op" where
  "bindE m f s = (case m s of (Inl e, s') \<Rightarrow> (Inl e, s') | (Inr a, s') \<Rightarrow> f a s')"

definition catchE :: "('a, 's) op \<Rightarrow> (GitError \<Rightarrow> ('a, 's) op) \<Rightarrow> ('a, 's) op" where
  "catchE m h s = (case m s of (Inl e, s') \<Rightarrow> h e s' | (Inr a, s') \<Rightarrow> (Inr a, s'))"

definition finallyE :: "('a, 's) op \<Rightarrow> ('s \<Rightarrow> 's) \<Rightarrow> ('a, 's) op" where
  "finallyE m f s = (case m s of (r, s') \<Rightarrow> (r, f s'))"

definition returnE :: "'a \<Rightarrow> ('a, 's) op" where
  "returnE a s = (Inr a, s)"

definition throwE :: "GitError \<Rightarrow> ('a, 's) op" where
  "throwE e s = (Inl e, s)"

section \<open>GitExecutor (src/git/executor.ts, the second part of src/src/git/types.ts)\<close>

record GitExecutor =
  gitPath :: string
  workingDir :: string

text \<open>\<open>x || ''\<close> on an optional string.\<close>

definition orEmpty :: "string option \<Rightarrow> string" where
  "orEmpty x = (case x of None \<Rightarrow> [] | Some s \<Rightarrow> s)"

definition run :: "shell \<Rightarrow> GitExecutor \<Rightarrow> string \<Rightarrow> ExecResult git" where
  "run sh g command =
     catchE (execAsync sh (gitPath g @ '' '' @ command))
       (\<lambda>err. throwE \<lparr>message = message err, code = code err,
                       stderr = Some (orEmpty (stderr err)),
                       stdout = Some (orEmpty (stdout err))\<rparr>)"

definition isGitAvailable :: "shell \<Rightarrow> GitExecutor \<Rightarrow> bool git" where
  "isGitAvailable sh g =
     catchE (bindE (execAsync sh (gitPath g @ '' --version'')) (\<lambda>_. returnE True))
       (\<lambda>_. returnE False)"

definition isRepo_git :: "shell \<Rightarrow> GitExecutor \<Rightarrow> bool git" where
  "isRepo_git sh g =
     catchE (bindE (run sh g ''rev-parse --is-inside-work-tree'') (\<lambda>_. returnE True))
       (\<lambda>_. returnE False)"

definition getCurrentBranch :: "shell \<Rightarrow> GitExecutor \<Rightarrow> string git" where
  "getCurrentBranch sh g =
     bindE (run sh g ''rev-parse --abbrev-ref HEAD'') (\<lambda>result. returnE (trim (out_stdout result)))"

text \<open>\<open>remotes.includes('origin') ? 'origin' : remotes[0] || null\<close>\<close>

definition pickRemote :: "string list \<Rightarrow> string option" where
  "pickRemote remotes =
     (if List.member remotes ''origin'' then Some ''origin''
      else (case remotes of [] \<Rightarrow> None | r # _ \<Rightarrow> if r = [] then None else Some r))"

definition getRemoteName :: "shell \<Rightarrow> GitExecutor \<Rightarrow> string option git" where
  "getRemoteName sh g =
     catchE (bindE (run sh g ''remote'')
               (\<lambda>result. returnE (pickRemote (nonEmptyLines (out_stdout result)))))
       (\<lambda>_. returnE None)"

definition fetch :: "shell \<Rightarrow> GitExecutor \<Rightarrow> unit git" where
  "fetch sh g =
     bindE (getRemoteName sh g) (\<lambda>remote.
       case remote of
         Some r \<Rightarrow> bindE (run sh g (''fetch '' @ r)) (\<lambda>_. returnE ())
       | None \<Rightarrow> returnE ())"

subsection \<open>status\<close>

text \<open>
  The branch line is matched against
  \<^verbatim>\<open>^## (?:No branch|\S+)(?:\.\.\.\S+)?(?:\s+\[(?:ahead (\d+))?(?:, )?(?:behind (\d+))?\])?\<close>.
  Every group after the branch name is optional, so the first alternative the matcher
  tries for the name is final: \<open>No branch\<close> when the line continues so, else the longest
  run of non-space characters. The bracket group then matches at that position or not at
  all, and its two captures are defined only when it matches up to the closing bracket.
\<close>

text \<open>\<^verbatim>\<open>(?:\.\.\.\S+)?\<close>\<close>

definition matchUpstream :: "string \<Rightarrow> string" where
  "matchUpstream s =
     (if prefix ''...'' s \<and> takeWhile notSpace (drop 3 s) \<noteq> []
      then dropWhile notSpace (drop 3 s) else s)"

text \<open>\<^verbatim>\<open>(?:ahead (\d+))?\<close> and \<^verbatim>\<open>(?:behind (\d+))?\<close>: the capture and the rest.\<close>

definition matchCount :: "string \<Rightarrow> string \<Rightarrow> string option \<times> string" where
  "matchCount word s =
     (let r = drop (length word) s in
      if prefix word s \<and> takeWhile isDigit r \<noteq> []
      then (Some (takeWhile isDigit r), dropWhile isDigit r) else (None, s))"

text \<open>\<^verbatim>\<open>(?:, )?\<close>\<close>

definition matchComma :: "string \<Rightarrow> string" where
  "matchComma s = (if prefix '', '' s then drop 2 s else s)"

text \<open>\<^verbatim>\<open>(?:\s+\[(?:ahead (\d+))?(?:, )?(?:behind (\d+))?\])?\<close>: the two captures.\<close>

definition matchTracking :: "string \<Rightarrow> string option \<times> string option" where
  "matchTracking s =
     (if takeWhile isWhiteSpace s = [] then (None, None)
      else (case dropWhile isWhiteSpace s of
              [] \<Rightarrow> (None, None)
            | c # r1 \<Rightarrow>
                if c \<noteq> CHR ''['' then (None, None)
                else (let (a, r2) = matchCount ''ahead '' r1;
                          r3 = matchComma r2;
                          (b, r4) = matchCount ''behind '' r3
                      in if prefix '']'' r4 then (a, b) else (None, None))))"

text \<open>Captures 1 and 2 of \<open>branchMatch\<close>; both undefined when the line does not match.\<close>

definition branchMatch :: "string \<Rightarrow> string option \<times> string option" where
  "branchMatch branchLine =
     (if \<not> prefix ''## '' branchLine then (None, None)
      else (let r = drop 3 branchLine in
            if prefix ''No branch'' r then matchTracking (matchUpstream (drop 9 r))
            else if takeWhile notSpace r = [] then (None, None)
            else matchTracking (matchUpstream (dropWhile notSpace r))))"

text \<open>\<open>branchLine.replace(/^## /, '').split('...')[0].split(' ')[0]\<close>\<close>

definition branchName :: "string \<Rightarrow> string" where
  "branchName branchLine =
     splitFirst '' '' (splitFirst ''...''
       (if prefix ''## '' branchLine then drop 3 branchLine else branchLine))"

text \<open>
  The four lists the loop over the status lines fills: staged, modified, untracked and
  conflicts. \<open>classifyLine\<close> is the body of the loop.
\<close>

record FileLists =
  fl_staged :: "string list"
  fl_modified :: "string list"
  fl_untracked :: "string list"
  fl_conflicts :: "string list"

definition classifyLine :: "FileLists \<Rightarrow> string \<Rightarrow> FileLists" where
  "classifyLine acc line =
     (let indexStatus = charAt line 0;
          workTreeStatus = charAt line 1;
          fileName = drop 3 line
      in if indexStatus = Some (CHR ''U'') \<or> workTreeStatus = Some (CHR ''U'') \<or>
            (indexStatus = Some (CHR ''A'') \<and> workTreeStatus = Some (CHR ''A'')) \<or>
            (indexStatus = Some (CHR ''D'') \<and> workTreeStatus = Some (CHR ''D''))
         then acc\<lparr>fl_conflicts := fl_conflicts acc @ [fileName]\<rparr>
         else (let acc1 = (if indexStatus \<noteq> Some (CHR '' '') \<and> indexStatus \<noteq> Some (CHR ''?'')
                           then acc\<lparr>fl_staged := fl_staged acc @ [fileName]\<rparr> else acc);
                   acc2 = (if workTreeStatus \<noteq> Some (CHR '' '') \<and> workTreeStatus \<noteq> Some (CHR ''?'')
                           then acc1\<lparr>fl_modified := fl_modified acc1 @ [fileName]\<rparr> else acc1)
               in if indexStatus = Some (CHR ''?'') \<and> workTreeStatus = Some (CHR ''?'')
                  then acc2\<lparr>fl_untracked := fl_untracked acc2 @ [fileName]\<rparr> else acc2))"

definition classifyLines :: "string list \<Rightarrow> FileLists" where
  "classifyLines statusLines =
     foldl classifyLine \<lparr>fl_staged = [], fl_modified = [], fl_untracked = [], fl_conflicts = []\<rparr>
       statusLines"

text \<open>What \<open>status\<close> makes of the output of \<open>status --porcelain=v1 --branch\<close>.\<close>

definition parseStatus :: "string \<Rightarrow> GitStatus" where
  "parseStatus out =
     (let lines = nonEmptyLines out;
          branchLine = (case lines of [] \<Rightarrow> [] | l # _ \<Rightarrow> l);
          statusLines = tl lines;
          m = branchMatch branchLine;
          b = branchName branchLine;
          fl = classifyLines statusLines
      in \<lparr>isRepo = True,
          branch = (if b = ''HEAD'' then ''(detached)'' else b),
          ahead = (case fst m of Some ds \<Rightarrow> parseInt ds | None \<Rightarrow> 0),
          behind = (case snd m of Some ds \<Rightarrow> parseInt ds | None \<Rightarrow> 0),
          staged = fl_staged fl,
          modified = fl_modified fl,
          untracked = fl_untracked fl,
          conflicts = fl_conflicts fl,
          clean = (fl_staged fl = [] \<and> fl_modified fl = [] \<and> fl_untracked fl = [] \<and>
                   fl_conflicts fl = [])\<rparr>)"

definition status :: "shell \<Rightarrow> GitExecutor \<Rightarrow> GitStatus git" where
  "status sh g =
     bindE (run sh g ''status --porcelain=v1 --branch'')
       (\<lambda>result. returnE (parseStatus (out_stdout result)))"

subsection \<open>hasConflicts, addAll, commit\<close>

definition hasConflicts :: "shell \<Rightarrow> GitExecutor \<Rightarrow> bool git" where
  "hasConflicts sh g =
     catchE (bindE (run sh g ''diff --name-only --diff-filter=U'')
               (\<lambda>result. returnE (length (trim (out_stdout result)) > 0)))
       (\<lambda>_. returnE False)"

definition addAll :: "shell \<Rightarrow> GitExecutor \<Rightarrow> unit git" where
  "addAll sh g = bindE (run sh g ''add -A'') (\<lambda>_. returnE ())"

text \<open>\<open>message.replace(/"/g, '\\"')\<close>: a backslash before every double quote.\<close>

definition escapeQuotes :: "string \<Rightarrow> string" where
  "escapeQuotes s = concat (map (\<lambda>c. if c = CHR 0x22 then [CHR 0x5C, CHR 0x22] else [c]) s)"

text \<open>\<open>error.stdout?.includes('nothing to commit')\<close>\<close>

definition nothingToCommit :: "GitError \<Rightarrow> bool" where
  "nothingToCommit err =
     (case stdout err of None \<Rightarrow> False | Some s \<Rightarrow> str_includes s ''nothing to commit'')"

definition commitCommand :: "string \<Rightarrow> string" where
  "commitCommand msg = ''commit -m '' @ [CHR 0x22] @ escapeQuotes msg @ [CHR 0x22]"

definition commit :: "shell \<Rightarrow> GitExecutor \<Rightarrow> string \<Rightarrow> CommitResult git" where
  "commit sh g msg =
     catchE (bindE (run sh g (commitCommand msg))
               (\<lambda>_. returnE \<lparr>commit_success = True, commit_message = ''Commit successful'',
                               commit_files = 0\<rparr>))
       (\<lambda>err. if nothingToCommit err
               then returnE \<lparr>commit_success = True, commit_message = ''Nothing to commit'',
                              commit_files = 0\<rparr>
               else throwE err)"

subsection \<open>pull\<close>

definition getConflictFiles :: "shell \<Rightarrow> GitExecutor \<Rightarrow> string list git" where
  "getConflictFiles sh g =
     catchE (bindE (run sh g ''diff --name-only --diff-filter=U'')
               (\<lambda>result. returnE (nonEmptyLines (out_stdout result))))
       (\<lambda>_. returnE [])"

text \<open>
  \<open>parsePullFiles\<close> matches every line against \<^verbatim>\<open>^\s+(.+?)\s*\|\<close>. The dot matches
  any character but a line terminator. \<open>lazyCapture cap r\<close> extends the capture \<open>cap\<close>
  over \<open>r\<close> one character at a time until \<^verbatim>\<open>\s*\|\<close> matches what follows;
  \<open>matchPullLine k\<close> gives the leading \<^verbatim>\<open>\s+\<close> first \<open>k\<close> characters, then fewer.
\<close>

definition isLineTerminator :: "char \<Rightarrow> bool" where
  "isLineTerminator c = (c = CHR 0x0A \<or> c = CHR 0x0D)"

definition pipeAhead :: "string \<Rightarrow> bool" where
  "pipeAhead s = prefix ''|'' (dropWhile isWhiteSpace s)"

fun lazyCapture :: "string \<Rightarrow> string \<Rightarrow> string option" where
  "lazyCapture cap [] = None"
| "lazyCapture cap (c # cs) =
     (if pipeAhead (c # cs) then Some cap
      else if isLineTerminator c then None
      else lazyCapture (cap @ [c]) cs)"

definition captureFrom :: "string \<Rightarrow> string option" where
  "captureFrom r =
     (case r of [] \<Rightarrow> None
      | c # cs \<Rightarrow> if isLineTerminator c then None else lazyCapture [c] cs)"

fun matchPullLine :: "nat \<Rightarrow> string \<Rightarrow> string option" where
  "matchPullLine 0 line = None"
| "matchPullLine (Suc k) line =
     (case captureFrom (drop (Suc k) line) of
        Some cap \<Rightarrow> Some cap
      | None \<Rightarrow> matchPullLine k line)"

definition parsePullFiles :: "string \<Rightarrow> string list" where
  "parsePullFiles output =
     List.map_filter
       (\<lambda>line. map_option trim (matchPullLine (length (takeWhile isWhiteSpace line)) line))
       (split (CHR 0x0A) output)"

definition stashPushCommand :: string where
  "stashPushCommand = ''stash push -m '' @ [CHR 0x22] @ ''obsidian-git-sync-auto-stash'' @ [CHR 0x22]"

definition pull :: "shell \<Rightarrow> GitExecutor \<Rightarrow> PullResult git" where
  "pull sh g =
     catchE
       (bindE (getCurrentBranch sh g) (\<lambda>branch.
        bindE (getRemoteName sh g) (\<lambda>remote.
          case remote of
            None \<Rightarrow> returnE \<lparr>pull_success = False, pull_message = ''No remote configured'',
                               pull_files = [], pull_conflicts = []\<rparr>
          | Some r \<Rightarrow>
              bindE (fetch sh g) (\<lambda>_.
              bindE (status sh g) (\<lambda>st.
              bindE (if length (modified st) > 0 \<or> length (staged st) > 0
                     then bindE (run sh g stashPushCommand) (\<lambda>_. returnE ())
                     else returnE ()) (\<lambda>_.
              bindE (run sh g (''pull '' @ r @ '' '' @ branch @ '' --rebase'')) (\<lambda>result.
              bindE (catchE (bindE (run sh g ''stash pop'') (\<lambda>_. returnE ()))
                       (\<lambda>_. returnE ())) (\<lambda>_.
              returnE \<lparr>pull_success = True, pull_message = ''Pull successful'',
                        pull_files = parsePullFiles (out_stdout result),
                        pull_conflicts = []\<rparr>))))))))
       (\<lambda>err.
          bindE (hasConflicts sh g) (\<lambda>hc.
            if hc
            then bindE (getConflictFiles sh g) (\<lambda>conflictFiles.
                   returnE \<lparr>pull_success = False, pull_message = ''Merge conflicts detected'',
                             pull_files = [], pull_conflicts = conflictFiles\<rparr>)
            else throwE err))"

subsection \<open>push\<close>

text \<open>
  The user-facing texts of the source are Chinese; they are given as UTF-8 bytes. In
  English: \<open>msgNoRemote\<close> "no remote repository configured", \<open>msgPushOk\<close> "push
  succeeded", \<open>msgAuthHttps\<close> "authentication failed: pushing over HTTPS needs credentials
  ...", \<open>msgAuthSsh\<close> "SSH authentication failed: check that the SSH key has been added
  ...", \<open>msgNoPermission\<close> "no push permission: check the write access to the repository",
  \<open>msgNetwork\<close> "network error: cannot resolve the remote host", \<open>msgPushFailed\<close> "push
  failed, check the network and the credentials".
\<close>

definition msgNoRemote :: string where
  "msgNoRemote =
     [CHR 0xE6, CHR 0x9C, CHR 0xAA, CHR 0xE9, CHR 0x85, CHR 0x8D, CHR 0xE7, CHR 0xBD, CHR 0xAE,
      CHR 0xE8, CHR 0xBF, CHR 0x9C, CHR 0xE7, CHR 0xA8, CHR 0x8B, CHR 0xE4, CHR 0xBB, CHR 0x93,
      CHR 0xE5, CHR 0xBA, CHR 0x93]"

definition msgPushOk :: string where
  "msgPushOk =
     [CHR 0xE6, CHR 0x8E, CHR 0xA8, CHR 0xE9, CHR 0x80, CHR 0x81, CHR 0xE6, CHR 0x88, CHR 0x90,
      CHR 0xE5, CHR 0x8A, CHR 0x9F]"

definition msgAuthHttps :: string where
  "msgAuthHttps =
     [CHR 0xE8, CHR 0xAE, CHR 0xA4, CHR 0xE8, CHR 0xAF, CHR 0x81, CHR 0xE5, CHR 0xA4, CHR 0xB1,
      CHR 0xE8, CHR 0xB4, CHR 0xA5, CHR 0xEF, CHR 0xBC, CHR 0x9A] @
     ''HTTPS '' @
     [CHR 0xE6, CHR 0x8E, CHR 0xA8, CHR 0xE9, CHR 0x80, CHR 0x81, CHR 0xE9, CHR 0x9C, CHR 0x80,
      CHR 0xE8, CHR 0xA6, CHR 0x81, CHR 0xE9, CHR 0x85, CHR 0x8D, CHR 0xE7, CHR 0xBD, CHR 0xAE,
      CHR 0xE5, CHR 0x87, CHR 0xAD, CHR 0xE8, CHR 0xAF, CHR 0x81, CHR 0xE3, CHR 0x80, CHR 0x82,
      CHR 0xE8, CHR 0xAF, CHR 0xB7, CHR 0xE5, CHR 0x9C, CHR 0xA8, CHR 0xE7, CHR 0xBB, CHR 0x88,
      CHR 0xE7, CHR 0xAB, CHR 0xAF, CHR 0xE8, CHR 0xBF, CHR 0x90, CHR 0xE8, CHR 0xA1, CHR 0x8C] @
     '': git config --global credential.helper store'' @
     [CHR 0xEF, CHR 0xBC, CHR 0x8C, CHR 0xE7, CHR 0x84, CHR 0xB6, CHR 0xE5, CHR 0x90, CHR 0x8E,
      CHR 0xE6, CHR 0x89, CHR 0x8B, CHR 0xE5, CHR 0x8A, CHR 0xA8, CHR 0xE6, CHR 0x89, CHR 0xA7,
      CHR 0xE8, CHR 0xA1, CHR 0x8C, CHR 0xE4, CHR 0xB8, CHR 0x80, CHR 0xE6, CHR 0xAC, CHR 0xA1] @
     '' git push '' @
     [CHR 0xE8, CHR 0xBE, CHR 0x93, CHR 0xE5, CHR 0x85, CHR 0xA5, CHR 0xE7, CHR 0x94, CHR 0xA8,
      CHR 0xE6, CHR 0x88, CHR 0xB7, CHR 0xE5, CHR 0x90, CHR 0x8D, CHR 0xE5, CHR 0x92, CHR 0x8C] @
     '' Personal Access Token''"

definition msgAuthSsh :: string where
  "msgAuthSsh =
     ''SSH '' @
     [CHR 0xE8, CHR 0xAE, CHR 0xA4, CHR 0xE8, CHR 0xAF, CHR 0x81, CHR 0xE5, CHR 0xA4, CHR 0xB1,
      CHR 0xE8, CHR 0xB4, CHR 0xA5, CHR 0xEF, CHR 0xBC, CHR 0x9A, CHR 0xE8, CHR 0xAF, CHR 0xB7,
      CHR 0xE6, CHR 0xA3, CHR 0x80, CHR 0xE6, CHR 0x9F, CHR 0xA5] @
     '' SSH '' @
     [CHR 0xE5, CHR 0xAF, CHR 0x86, CHR 0xE9, CHR 0x92, CHR 0xA5, CHR 0xE6, CHR 0x98, CHR 0xAF,
      CHR 0xE5, CHR 0x90, CHR 0xA6, CHR 0xE5, CHR 0xB7, CHR 0xB2, CHR 0xE6, CHR 0xB7, CHR 0xBB,
      CHR 0xE5, CHR 0x8A, CHR 0xA0, CHR 0xE5, CHR 0x88, CHR 0xB0] @
     '' GitHub/GitLab''"

definition msgNoPermission :: string where
  "msgNoPermission =
     [CHR 0xE6, CHR 0x97, CHR 0xA0, CHR 0xE6, CHR 0x8E, CHR 0xA8, CHR 0xE9, CHR 0x80, CHR 0x81,
      CHR 0xE6, CHR 0x9D, CHR 0x83, CHR 0xE9, CHR 0x99, CHR 0x90, CHR 0xEF, CHR 0xBC, CHR 0x9A,
      CHR 0xE8, CHR 0xAF, CHR 0xB7, CHR 0xE6, CHR 0xA3, CHR 0x80, CHR 0xE6, CHR 0x9F, CHR 0xA5,
      CHR 0xE6, CHR 0x98, CHR 0xAF, CHR 0xE5, CHR 0x90, CHR 0xA6, CHR 0xE6, CHR 0x9C, CHR 0x89,
      CHR 0xE4, CHR 0xBB, CHR 0x93, CHR 0xE5, CHR 0xBA, CHR 0x93, CHR 0xE5, CHR 0x86, CHR 0x99,
      CHR 0xE5, CHR 0x85, CHR 0xA5, CHR 0xE6, CHR 0x9D, CHR 0x83, CHR 0xE9, CHR 0x99, CHR 0x90]"

definition msgNetwork :: string where
  "msgNetwork =
     [CHR 0xE7, CHR 0xBD, CHR 0x91, CHR 0xE7, CHR 0xBB, CHR 0x9C, CHR 0xE9, CHR 0x94, CHR 0x99,
      CHR 0xE8, CHR 0xAF, CHR 0xAF, CHR 0xEF, CHR 0xBC, CHR 0x9A, CHR 0xE6, CHR 0x97, CHR 0xA0,
      CHR 0xE6, CHR 0xB3, CHR 0x95, CHR 0xE8, CHR 0xA7, CHR 0xA3, CHR 0xE6, CHR 0x9E, CHR 0x90,
      CHR 0xE8, CHR 0xBF, CHR 0x9C, CHR 0xE7, CHR 0xA8, CHR 0x8B, CHR 0xE4, CHR 0xB8, CHR 0xBB,
      CHR 0xE6, CHR 0x9C, CHR 0xBA]"

definition msgPushFailed :: string where
  "msgPushFailed =
     [CHR 0xE6, CHR 0x8E, CHR 0xA8, CHR 0xE9, CHR 0x80, CHR 0x81, CHR 0xE5, CHR 0xA4, CHR 0xB1,
      CHR 0xE8, CHR 0xB4, CHR 0xA5, CHR 0xEF, CHR 0xBC, CHR 0x8C, CHR 0xE8, CHR 0xAF, CHR 0xB7,
      CHR 0xE6, CHR 0xA3, CHR 0x80, CHR 0xE6, CHR 0x9F, CHR 0xA5, CHR 0xE7, CHR 0xBD, CHR 0x91,
      CHR 0xE7, CHR 0xBB, CHR 0x9C, CHR 0xE5, CHR 0x92, CHR 0x8C, CHR 0xE5, CHR 0x87, CHR 0xAD,
      CHR 0xE8, CHR 0xAF, CHR 0x81, CHR 0xE9, CHR 0x85, CHR 0x8D, CHR 0xE7, CHR 0xBD, CHR 0xAE]"

text \<open>\<open>s.replace(pat, '')\<close> for a string pattern: the first occurrence is removed.\<close>

fun removeFirst :: "string \<Rightarrow> string \<Rightarrow> string" where
  "removeFirst pat [] = []"
| "removeFirst pat (c # cs) =
     (if prefix pat (c # cs) then drop (length pat) (c # cs) else c # removeFirst pat cs)"

definition parsePushError :: "GitError \<Rightarrow> string" where
  "parsePushError err =
     (let se = orEmpty (stderr err) in
      if str_includes se ''Authentication failed'' \<or> str_includes se ''403'' \<or>
         str_includes se ''fatal: unable to access''
      then msgAuthHttps
      else if str_includes se ''Permission denied (publickey)'' then msgAuthSsh
      else if str_includes se ''Permission to'' \<and> str_includes se ''denied'' then msgNoPermission
      else if str_includes se ''Could not resolve host'' then msgNetwork
      else if str_includes se ''fatal:''
      then (case find (\<lambda>line. str_includes line ''fatal:'') (split (CHR 0x0A) se) of
              Some fatalLine \<Rightarrow> trim (removeFirst ''fatal: '' fatalLine)
            | None \<Rightarrow> msgPushFailed)
      else msgPushFailed)"

definition push :: "shell \<Rightarrow> GitExecutor \<Rightarrow> PushResult git" where
  "push sh g =
     catchE
       (bindE (getCurrentBranch sh g) (\<lambda>branch.
        bindE (getRemoteName sh g) (\<lambda>remote.
          case remote of
            None \<Rightarrow> returnE \<lparr>push_success = False, push_message = msgNoRemote, pushed = 0\<rparr>
          | Some r \<Rightarrow>
              bindE (run sh g (''push '' @ r @ '' '' @ branch)) (\<lambda>_.
              returnE \<lparr>push_success = True, push_message = msgPushOk, pushed = 1\<rparr>))))
       (\<lambda>err. returnE \<lparr>push_success = False, push_message = parsePushError err, pushed = 0\<rparr>)"

definition pushWithUpstream :: "shell \<Rightarrow> GitExecutor \<Rightarrow> PushResult git" where
  "pushWithUpstream sh g =
     catchE
       (bindE (getCurrentBranch sh g) (\<lambda>branch.
        bindE (getRemoteName sh g) (\<lambda>remote.
          case remote of
            None \<Rightarrow> returnE \<lparr>push_success = False, push_message = msgNoRemote, pushed = 0\<rparr>
          | Some r \<Rightarrow>
              bindE (run sh g (''push -u '' @ r @ '' '' @ branch)) (\<lambda>_.
              returnE \<lparr>push_success = True, push_message = msgPushOk, pushed = 1\<rparr>))))
       (\<lambda>err. returnE \<lparr>push_success = False, push_message = parsePushError err, pushed = 0\<rparr>)"

definition hasUpstream :: "shell \<Rightarrow> GitExecutor \<Rightarrow> bool git" where
  "hasUpstream sh g =
     catchE
       (bindE (getCurrentBranch sh g) (\<lambda>branch.
        bindE (run sh g (''rev-parse --abbrev-ref '' @ branch @ ''@'' @ ''{upstream}'')) (\<lambda>_.
        returnE True)))
       (\<lambda>_. returnE False)"

section \<open>SyncManager (src/src/sync/sync-manager.ts)\<close>

text \<open>
  The fields of the manager. \<open>onStatusChange\<close> tells whether a callback is registered, and
  \<open>statusCalls\<close> lists the calls it has received. Times are numbers read off a clock.
\<close>

record SyncManager =
  syncLock :: bool
  lastSyncTime :: "nat option"
  lastSyncResult :: "SyncResult option"
  onStatusChange :: bool
  statusCalls :: "(SyncStatus \<times> string) list"

type_synonym 'a sync = "('a, SyncManager \<times> string list) op"

text \<open>A call of the executor from the manager, and an update of the manager's fields.\<close>

definition liftG :: "'a git \<Rightarrow> 'a sync" where
  "liftG m s = (case m (snd s) of (r, l') \<Rightarrow> (r, (fst s, l')))"

definition modifyM :: "(SyncManager \<Rightarrow> SyncManager) \<Rightarrow> unit sync" where
  "modifyM f s = (Inr (), (f (fst s), snd s))"

definition updateStatus :: "SyncStatus \<Rightarrow> string \<Rightarrow> unit sync" where
  "updateStatus st msg =
     modifyM (\<lambda>m. if onStatusChange m then m\<lparr>statusCalls := statusCalls m @ [(st, msg)]\<rparr> else m)"

definition isSyncing :: "SyncManager \<Rightarrow> bool" where
  "isSyncing m = syncLock m"

record GitCheck =
  check_available :: bool
  check_isRepo :: bool
  check_error :: "string option"

definition checkGitStatus :: "shell \<Rightarrow> GitExecutor \<Rightarrow> GitCheck git" where
  "checkGitStatus sh g =
     bindE (isGitAvailable sh g) (\<lambda>gitAvailable.
       if \<not> gitAvailable
       then returnE \<lparr>check_available = False, check_isRepo = False,
                      check_error = Some ''Git is not installed or not found in PATH''\<rparr>
       else bindE (isRepo_git sh g) (\<lambda>r.
              returnE \<lparr>check_available = True, check_isRepo = r, check_error = None\<rparr>))"

definition getStatus :: "shell \<Rightarrow> GitExecutor \<Rightarrow> GitStatus sync" where
  "getStatus sh g = liftG (status sh g)"

text \<open>\<open>x || d\<close> on an optional string, and on a string.\<close>

definition orDefault :: "string option \<Rightarrow> string \<Rightarrow> string" where
  "orDefault x d = (case x of None \<Rightarrow> d | Some s \<Rightarrow> if s = [] then d else s)"

subsection \<open>pullOnly\<close>

definition pullOnly :: "shell \<Rightarrow> GitExecutor \<Rightarrow> PullResult sync" where
  "pullOnly sh g =
     catchE
       (bindE (liftG (getRemoteName sh g)) (\<lambda>remote.
          case remote of
            None \<Rightarrow> returnE \<lparr>pull_success = True,
                               pull_message = ''No remote configured, skipping pull'',
                               pull_files = [], pull_conflicts = []\<rparr>
          | Some _ \<Rightarrow>
              bindE (liftG (fetch sh g)) (\<lambda>_.
              bindE (liftG (status sh g)) (\<lambda>st.
                if behind st = 0
                then returnE \<lparr>pull_success = True, pull_message = ''Already up to date'',
                               pull_files = [], pull_conflicts = []\<rparr>
                else bindE (updateStatus pulling ''Pulling changes...'') (\<lambda>_.
                     liftG (pull sh g))))))
       (\<lambda>err.
          bindE (liftG (hasConflicts sh g)) (\<lambda>hc.
            if hc
            then bindE (getStatus sh g) (\<lambda>s.
                 bindE (updateStatus conflict ''Merge conflicts detected'') (\<lambda>_.
                 returnE \<lparr>pull_success = False, pull_message = ''Merge conflicts detected'',
                           pull_files = [], pull_conflicts = conflicts s\<rparr>))
            else throwE err))"

subsection \<open>commitAndPush\<close>

text \<open>
  \<open>commitMsg\<close> is the text that \<open>generateCommitMessage\<close> makes of the configured template
  at the time of the call.
\<close>

definition commitAndPush :: "shell \<Rightarrow> GitExecutor \<Rightarrow> string \<Rightarrow> PushResult sync" where
  "commitAndPush sh g commitMsg =
     catchE
       (bindE (liftG (status sh g)) (\<lambda>st.
          if clean st
          then (if ahead st > 0
                then bindE (updateStatus pushing ''Pushing changes...'') (\<lambda>_. liftG (push sh g))
                else returnE \<lparr>push_success = True, push_message = ''Nothing to commit or push'',
                               pushed = 0\<rparr>)
          else bindE (liftG (addAll sh g)) (\<lambda>_.
               bindE (liftG (commit sh g commitMsg)) (\<lambda>_.
               bindE (liftG (hasUpstream sh g)) (\<lambda>hasUp.
               bindE (updateStatus pushing ''Pushing changes...'') (\<lambda>_.
               if hasUp then liftG (push sh g) else liftG (pushWithUpstream sh g)))))))
       (\<lambda>err.
          if nothingToCommit err
          then catchE (liftG (push sh g))
                 (\<lambda>pushError. returnE \<lparr>push_success = False, push_message = message pushError,
                                         pushed = 0\<rparr>)
          else returnE \<lparr>push_success = False, push_message = message err, pushed = 0\<rparr>)"

subsection \<open>sync\<close>

definition setLastSyncResult :: "SyncResult \<Rightarrow> SyncResult sync" where
  "setLastSyncResult r = bindE (modifyM (\<lambda>m. m\<lparr>lastSyncResult := Some r\<rparr>)) (\<lambda>_. returnE r)"

text \<open>The \<open>try\<close> block of \<open>sync\<close>; \<open>now\<close> is what \<open>new Date()\<close> reads.\<close>

definition syncTry :: "shell \<Rightarrow> GitExecutor \<Rightarrow> string \<Rightarrow> nat \<Rightarrow> SyncResult sync" where
  "syncTry sh g commitMsg now =
     bindE (liftG (checkGitStatus sh g)) (\<lambda>chk.
       if \<not> check_available chk
       then bindE (updateStatus error (orDefault (check_error chk) ''Git not available'')) (\<lambda>_.
            returnE \<lparr>sync_success = False,
                      sync_message = orDefault (check_error chk) ''Git not available'',
                      sync_pulled = None, sync_pushed = None, sync_conflicts = None\<rparr>)
       else if \<not> check_isRepo chk
       then bindE (updateStatus error ''Not a git repository'') (\<lambda>_.
            returnE \<lparr>sync_success = False,
                      sync_message = ''Not a git repository. Please initialize a git repository first.'',
                      sync_pulled = None, sync_pushed = None, sync_conflicts = None\<rparr>)
       else
         bindE (liftG (hasConflicts sh g)) (\<lambda>hc.
           if hc
           then bindE (updateStatus conflict ''Merge conflicts detected'') (\<lambda>_.
                returnE \<lparr>sync_success = False,
                          sync_message = ''Merge conflicts detected. Please resolve them manually.'',
                          sync_pulled = None, sync_pushed = None, sync_conflicts = Some []\<rparr>)
           else
             bindE (updateStatus pulling ''Pulling changes...'') (\<lambda>_.
             bindE (pullOnly sh g) (\<lambda>pullResult.
               if \<not> pull_success pullResult \<and> length (pull_conflicts pullResult) > 0
               then bindE (updateStatus conflict ''Merge conflicts detected'') (\<lambda>_.
                    setLastSyncResult
                      \<lparr>sync_success = False, sync_message = ''Merge conflicts after pull'',
                       sync_pulled = None, sync_pushed = None,
                       sync_conflicts = Some (pull_conflicts pullResult)\<rparr>)
               else
                 bindE (updateStatus pushing ''Committing and pushing changes...'') (\<lambda>_.
                 bindE (commitAndPush sh g commitMsg) (\<lambda>pushResult.
                   if push_success pushResult
                   then bindE (updateStatus success ''Sync completed successfully'') (\<lambda>_.
                        bindE (modifyM (\<lambda>m. m\<lparr>lastSyncTime := Some now\<rparr>)) (\<lambda>_.
                        setLastSyncResult
                          \<lparr>sync_success = True, sync_message = ''Sync completed'',
                           sync_pulled = Some (length (pull_files pullResult)),
                           sync_pushed = Some (pushed pushResult), sync_conflicts = None\<rparr>))
                   else bindE (updateStatus error (push_message pushResult)) (\<lambda>_.
                        setLastSyncResult
                          \<lparr>sync_success = False, sync_message = push_message pushResult,
                           sync_pulled = None, sync_pushed = None,
                           sync_conflicts = None\<rparr>)))))))"

text \<open>The \<open>catch\<close> block of \<open>sync\<close>.\<close>

definition syncCatch :: "GitError \<Rightarrow> SyncResult sync" where
  "syncCatch err =
     (let msg = (if message err = [] then ''Unknown error during sync'' else message err) in
      bindE (updateStatus error msg) (\<lambda>_.
      setLastSyncResult \<lparr>sync_success = False, sync_message = msg, sync_pulled = None,
                         sync_pushed = None, sync_conflicts = None\<rparr>))"

definition sync :: "shell \<Rightarrow> GitExecutor \<Rightarrow> string \<Rightarrow> nat \<Rightarrow> SyncResult sync" where
  "sync sh g commitMsg now s =
     (if syncLock (fst s)
      then (Inr \<lparr>sync_success = False, sync_message = ''Sync already in progress'',
                 sync_pulled = None, sync_pushed = None, sync_conflicts = None\<rparr>, s)
      else finallyE (catchE (syncTry sh g commitMsg now) syncCatch)
             (\<lambda>s'. ((fst s')\<lparr>syncLock := False\<rparr>, snd s'))
             ((fst s)\<lparr>syncLock := True\<rparr>, snd s))"

section \<open>The plugin's commands (main.ts, in src/unnamed/part_000)\<close>

text \<open>
  The commands of the plugin call the manager and show notices. The state of a command is
  the list of notices shown (text and error flag) with the manager and the command log.
\<close>

type_synonym 'a command = "('a, (string \<times> bool) list \<times> SyncManager \<times> string list) op"

definition liftS :: "'a sync \<Rightarrow> 'a command" where
  "liftS m s = (case m (snd s) of (r, s') \<Rightarrow> (r, (fst s, s')))"

text \<open>
  The texts of the notices: the prefix "Git sync: ", \<open>noticeBusy\<close> "a sync is in progress",
  \<open>noticeStart\<close> "starting sync...", and the openings "sync failed: ", "pull failed: "
  and "push failed: ".
\<close>

definition noticePrefix :: string where
  "noticePrefix =
     ''Git '' @
     [CHR 0xE5, CHR 0x90, CHR 0x8C, CHR 0xE6, CHR 0xAD, CHR 0xA5] @
     '': ''"

definition noticeBusy :: string where
  "noticeBusy =
     [CHR 0xE5, CHR 0x90, CHR 0x8C, CHR 0xE6, CHR 0xAD, CHR 0xA5, CHR 0xE6, CHR 0xAD, CHR 0xA3,
      CHR 0xE5, CHR 0x9C, CHR 0xA8, CHR 0xE8, CHR 0xBF, CHR 0x9B, CHR 0xE8, CHR 0xA1, CHR 0x8C,
      CHR 0xE4, CHR 0xB8, CHR 0xAD]"

definition noticeStart :: string where
  "noticeStart =
     [CHR 0xE5, CHR 0xBC, CHR 0x80, CHR 0xE5, CHR 0xA7, CHR 0x8B, CHR 0xE5, CHR 0x90, CHR 0x8C,
      CHR 0xE6, CHR 0xAD, CHR 0xA5] @
     ''...''"

definition noticeSyncFailed :: string where
  "noticeSyncFailed =
     [CHR 0xE5, CHR 0x90, CHR 0x8C, CHR 0xE6, CHR 0xAD, CHR 0xA5, CHR 0xE5, CHR 0xA4, CHR 0xB1,
      CHR 0xE8, CHR 0xB4, CHR 0xA5] @
     '': ''"

definition noticePullFailed :: string where
  "noticePullFailed =
     [CHR 0xE6, CHR 0x8B, CHR 0x89, CHR 0xE5, CHR 0x8F, CHR 0x96, CHR 0xE5, CHR 0xA4, CHR 0xB1,
      CHR 0xE8, CHR 0xB4, CHR 0xA5] @
     '': ''"

definition noticePushFailed :: string where
  "noticePushFailed =
     [CHR 0xE6, CHR 0x8E, CHR 0xA8, CHR 0xE9, CHR 0x80, CHR 0x81, CHR 0xE5, CHR 0xA4, CHR 0xB1,
      CHR 0xE8, CHR 0xB4, CHR 0xA5] @
     '': ''"

text \<open>\<open>showNotice\<close>; \<open>shown\<close> is the setting \<open>showNotifications\<close>.\<close>

definition showNotice :: "bool \<Rightarrow> string \<Rightarrow> bool \<Rightarrow> unit command" where
  "showNotice shown msg isError s =
     (Inr (), (if shown then fst s @ [(noticePrefix @ msg, isError)] else fst s, snd s))"

definition plugin_sync :: "bool \<Rightarrow> shell \<Rightarrow> GitExecutor \<Rightarrow> string \<Rightarrow> nat \<Rightarrow> unit command" where
  "plugin_sync shown sh g commitMsg now s =
     (if isSyncing (fst (snd s)) then showNotice shown noticeBusy False s
      else bindE (showNotice shown noticeStart False) (\<lambda>_.
           bindE (liftS (sync sh g commitMsg now)) (\<lambda>result.
             if sync_success result then showNotice shown (sync_message result) False
             else showNotice shown (noticeSyncFailed @ sync_message result) True)) s)"

definition plugin_pull :: "bool \<Rightarrow> shell \<Rightarrow> GitExecutor \<Rightarrow> unit command" where
  "plugin_pull shown sh g s =
     (if isSyncing (fst (snd s)) then showNotice shown noticeBusy False s
      else bindE (liftS (pullOnly sh g)) (\<lambda>result.
             if pull_success result then showNotice shown (pull_message result) False
             else showNotice shown (noticePullFailed @ pull_message result) True) s)"

definition plugin_commitAndPush :: "bool \<Rightarrow> shell \<Rightarrow> GitExecutor \<Rightarrow> string \<Rightarrow> unit command" where
  "plugin_commitAndPush shown sh g commitMsg s =
     (if isSyncing (fst (snd s)) then showNotice shown noticeBusy False s
      else bindE (liftS (commitAndPush sh g commitMsg)) (\<lambda>result.
             if push_success result then showNotice shown (push_message result) False
             else showNotice shown (noticePushFailed @ push_message result) True) s)"

section \<open>What the manager's operations leave unchanged\<close>

text \<open>
  \<open>sameRecord m m'\<close>: the lock, the last sync time, the last result and the callback of
  \<open>m'\<close> are those of \<open>m\<close>. An operation keeps the record when it changes none of them,
  whatever the state it starts from.
\<close>

definition sameRecord :: "SyncManager \<Rightarrow> SyncManager \<Rightarrow> bool" where
  "sameRecord m m' =
     (syncLock m' = syncLock m \<and> lastSyncTime m' = lastSyncTime m \<and>
      lastSyncResult m' = lastSyncResult m \<and> onStatusChange m' = onStatusChange m)"

definition keepsRecord :: "'a sync \<Rightarrow> bool" where
  "keepsRecord f = (\<forall>s. sameRecord (fst s) (fst (snd (f s))))"

section \<open>Example worlds\<close>

text \<open>An executor, and the two shapes of a shell's answer.\<close>

definition exampleGit :: GitExecutor where
  "exampleGit = \<lparr>gitPath = ''git'', workingDir = ''/vault''\<rparr>"

definition okOut :: "string \<Rightarrow> GitError + ExecResult" where
  "okOut s = Inr \<lparr>out_stdout = s, out_stderr = []\<rparr>"

definition failed :: "string \<Rightarrow> string \<Rightarrow> GitError + ExecResult" where
  "failed out err =
     Inl \<lparr>message = ''Command failed'', code = Some ''1'', stderr = Some err, stdout = Some out\<rparr>"

text \<open>An error of a failed command with the given stderr text.\<close>

definition gitError :: "string \<Rightarrow> GitError" where
  "gitError err =
     \<lparr>message = ''Command failed'', code = Some ''128'', stderr = Some err, stdout = Some []\<rparr>"

text \<open>A manager at rest, with a callback registered.\<close>

definition idleManager :: SyncManager where
  "idleManager = \<lparr>syncLock = False, lastSyncTime = None, lastSyncResult = None,
                    onStatusChange = True, statusCalls = []\<rparr>"

text \<open>A repository without a remote.\<close>

definition noRemoteShell :: shell where
  "noRemoteShell l c =
     (if c = ''git remote'' then okOut [] else failed [] ''fatal: unexpected command'')"

text \<open>A repository that is one commit ahead of its remote and not behind.\<close>

definition upToDateShell :: shell where
  "upToDateShell l c =
     (if c = ''git remote'' then okOut (''origin'' @ [CHR 0x0A])
      else if c = ''git fetch origin'' then okOut []
      else if c = ''git status --porcelain=v1 --branch''
      then okOut (''## main...origin/main [ahead 1]'' @ [CHR 0x0A])
      else failed [] ''fatal: unexpected command'')"

text \<open>
  A repository where another actor has committed in the meantime: the status shows a
  modified file, and the commit finds nothing to commit.
\<close>

definition raceShell :: shell where
  "raceShell l c =
     (if c = ''git status --porcelain=v1 --branch''
      then okOut (''## main...origin/main'' @ [CHR 0x0A] @ '' M note.md'' @ [CHR 0x0A])
      else if c = ''git add -A'' then okOut []
      else if c = ''git commit -m '' @ [CHR 0x22] @ ''backup'' @ [CHR 0x22]
      then failed (''On branch main'' @ [CHR 0x0A] @ ''nothing to commit, working tree clean'' @ [CHR 0x0A]) []
      else if c = ''git rev-parse --abbrev-ref HEAD'' then okOut (''main'' @ [CHR 0x0A])
      else if c = ''git rev-parse --abbrev-ref main@'' @ ''{upstream}''
      then okOut (''origin/main'' @ [CHR 0x0A])
      else if c = ''git remote'' then okOut (''origin'' @ [CHR 0x0A])
      else if c = ''git push origin main'' then okOut []
      else failed [] ''fatal: unexpected command'')"

definition raceError :: GitError where
  "raceError = \<lparr>message = ''Command failed'', code = Some ''1'', stderr = Some [],
       stdout = Some (''On branch main'' @ [CHR 0x0A] @ ''nothing to commit, working tree clean'' @ [CHR 0x0A])\<rparr>"

text \<open>A manager in the middle of a full sync: the lock is held.\<close>

definition busyManager :: SyncManager where
  "busyManager = \<lparr>syncLock = True, lastSyncTime = Some 1000, lastSyncResult = None,
                    onStatusChange = True, statusCalls = [(pulling, ''Pulling changes...'')]\<rparr>"

text \<open>A repository with an unresolved conflict in \<open>notes.md\<close>.\<close>

definition conflictedShell :: shell where
  "conflictedShell l c =
     (if c = ''git --version'' then okOut (''git version 2.43.0'' @ [CHR 0x0A])
      else if c = ''git rev-parse --is-inside-work-tree'' then okOut (''true'' @ [CHR 0x0A])
      else if c = ''git diff --name-only --diff-filter=U'' then okOut (''notes.md'' @ [CHR 0x0A])
      else if c = ''git status --porcelain=v1 --branch''
      then okOut (''## main...origin/main'' @ [CHR 0x0A] @ ''UU notes.md'' @ [CHR 0x0A])
      else failed [] ''fatal: unexpected command'')"



text \<open>
  A repository that is one commit behind its remote, where the pull ends in a conflict in
  \<open>notes.md\<close>.
\<close>

definition pullConflictShell :: shell where
  "pullConflictShell l c =
     (if c = ''git --version'' then okOut (''git version 2.43.0'' @ [CHR 0x0A])
      else if c = ''git rev-parse --is-inside-work-tree'' then okOut (''true'' @ [CHR 0x0A])
      else if c = ''git diff --name-only --diff-filter=U''
      then okOut (if List.member l ''git pull origin main --rebase''
                  then ''notes.md'' @ [CHR 0x0A] else [])
      else if c = ''git remote'' then okOut (''origin'' @ [CHR 0x0A])
      else if c = ''git fetch origin'' then okOut []
      else if c = ''git status --porcelain=v1 --branch''
      then okOut (''## main...origin/main [behind 1]'' @ [CHR 0x0A])
      else if c = ''git rev-parse --abbrev-ref HEAD'' then okOut (''main'' @ [CHR 0x0A])
      else if c = ''git pull origin main --rebase''
      then failed (''CONFLICT (content): Merge conflict in notes.md'' @ [CHR 0x0A])
             ''error: could not apply 1a2b3c4''
      else failed [] ''fatal: unexpected command'')"

text \<open>A repository with a local edit, in step with its remote: a full sync succeeds.\<close>

definition happyShell :: shell where
  "happyShell l c =
     (if c = ''git --version'' then okOut (''git version 2.43.0'' @ [CHR 0x0A])
      else if c = ''git rev-parse --is-inside-work-tree'' then okOut (''true'' @ [CHR 0x0A])
      else if c = ''git diff --name-only --diff-filter=U'' then okOut []
      else if c = ''git remote'' then okOut (''origin'' @ [CHR 0x0A])
      else if c = ''git fetch origin'' then okOut []
      else if c = ''git status --porcelain=v1 --branch''
      then okOut (''## main...origin/main'' @ [CHR 0x0A] @ '' M note.md'' @ [CHR 0x0A])
      else if c = ''git add -A'' then okOut []
      else if c = ''git commit -m '' @ [CHR 0x22] @ ''backup'' @ [CHR 0x22]
      then okOut (''[main 1a2b3c4] backup'' @ [CHR 0x0A])
      else if c = ''git rev-parse --abbrev-ref HEAD'' then okOut (''main'' @ [CHR 0x0A])
      else if c = ''git rev-parse --abbrev-ref main@'' @ ''{upstream}''
      then okOut (''origin/main'' @ [CHR 0x0A])
      else if c = ''git push origin main'' then okOut []
      else failed [] ''fatal: unexpected command'')"

text \<open>The states and command logs that the full syncs of these two repositories go through.\<close>

definition probeLog :: "string list" where
  "probeLog = [''git --version'', ''git rev-parse --is-inside-work-tree'']"

definition diffCommand :: string where
  "diffCommand = ''git diff --name-only --diff-filter=U''"

definition pullingManager :: SyncManager where
  "pullingManager = \<lparr>syncLock = True, lastSyncTime = None, lastSyncResult = None,
     onStatusChange = True, statusCalls = [(pulling, ''Pulling changes...'')]\<rparr>"

definition conflictManager :: SyncManager where
  "conflictManager = \<lparr>syncLock = True, lastSyncTime = None, lastSyncResult = None,
     onStatusChange = True,
     statusCalls = [(pulling, ''Pulling changes...''), (pulling, ''Pulling changes...'')]\<rparr>"

definition conflictLog :: "string list" where
  "conflictLog =
     probeLog @ [diffCommand, ''git remote'', ''git remote'', ''git fetch origin'',
                 ''git status --porcelain=v1 --branch'', ''git rev-parse --abbrev-ref HEAD'',
                 ''git remote'', ''git remote'', ''git fetch origin'',
                 ''git status --porcelain=v1 --branch'', ''git pull origin main --rebase'',
                 diffCommand, diffCommand]"

definition pulledLog :: "string list" where
  "pulledLog = probeLog @ [diffCommand, ''git remote'', ''git remote'', ''git fetch origin'',
                           ''git status --porcelain=v1 --branch'']"

definition pushingManager :: SyncManager where
  "pushingManager = \<lparr>syncLock = True, lastSyncTime = None, lastSyncResult = None,
     onStatusChange = True,
     statusCalls = [(pulling, ''Pulling changes...''),
                    (pushing, ''Committing and pushing changes...'')]\<rparr>"

definition pushedLog :: "string list" where
  "pushedLog = pulledLog @
     [''git status --porcelain=v1 --branch'', ''git add -A'',
      ''git commit -m '' @ [CHR 0x22] @ ''backup'' @ [CHR 0x22],
      ''git rev-parse --abbrev-ref HEAD'', ''git rev-parse --abbrev-ref main@'' @ ''{upstream}'',
      ''git rev-parse --abbrev-ref HEAD'', ''git remote'', ''git push origin main'']"

definition pushedManager :: SyncManager where
  "pushedManager = \<lparr>syncLock = True, lastSyncTime = None, lastSyncResult = None,
     onStatusChange = True,
     statusCalls = [(pulling, ''Pulling changes...''),
                    (pushing, ''Committing and pushing changes...''),
                    (pushing, ''Pushing changes...'')]\<rparr>"

text \<open>
  A repository whose remote cannot be reached: the fetch fails, and no conflict exists.
  \<open>offlineError\<close> is the error of the failed fetch, \<open>offlineLog\<close> the commands run when
  \<open>pullOnly\<close> has thrown it.
\<close>

definition offlineShell :: shell where
  "offlineShell l c =
     (if c = ''git --version'' then okOut (''git version 2.43.0'' @ [CHR 0x0A])
      else if c = ''git rev-parse --is-inside-work-tree'' then okOut (''true'' @ [CHR 0x0A])
      else if c = ''git diff --name-only --diff-filter=U'' then okOut []
      else if c = ''git remote'' then okOut (''origin'' @ [CHR 0x0A])
      else if c = ''git fetch origin''
      then failed [] ''fatal: unable to access the remote: Could not resolve host: example.com''
      else failed [] ''fatal: unexpected command'')"

definition offlineError :: GitError where
  "offlineError =
     \<lparr>message = ''Command failed'', code = Some ''1'',
      stderr = Some ''fatal: unable to access the remote: Could not resolve host: example.com'',
      stdout = Some []\<rparr>"

definition offlineLog :: "string list" where
  "offlineLog = probeLog @ [diffCommand, ''git remote'', ''git remote'', ''git fetch origin'',
                            diffCommand]"

section \<open>The classification rule of status lines\<close>

text \<open>
  The rule by the two codes of a line, stated line by line: a line is a conflict line when
  either code is \<open>U\<close>, or both are \<open>A\<close>, or both are \<open>D\<close>; a line that is no conflict line
  is staged when its index code is neither a space nor \<open>?\<close>, modified when its work-tree
  code is neither a space nor \<open>?\<close>, and untracked when both codes are \<open>?\<close>.
\<close>

definition conflictCodes :: "string \<Rightarrow> bool" where
  "conflictCodes line =
     (charAt line 0 = Some (CHR ''U'') \<or> charAt line 1 = Some (CHR ''U'') \<or>
      (charAt line 0 = Some (CHR ''A'') \<and> charAt line 1 = Some (CHR ''A'')) \<or>
      (charAt line 0 = Some (CHR ''D'') \<and> charAt line 1 = Some (CHR ''D'')))"

definition stagedCodes :: "string \<Rightarrow> bool" where
  "stagedCodes line =
     (\<not> conflictCodes line \<and> charAt line 0 \<noteq> Some (CHR '' '') \<and>
      charAt line 0 \<noteq> Some (CHR ''?''))"

definition modifiedCodes :: "string \<Rightarrow> bool" where
  "modifiedCodes line =
     (\<not> conflictCodes line \<and> charAt line 1 \<noteq> Some (CHR '' '') \<and>
      charAt line 1 \<noteq> Some (CHR ''?''))"

definition untrackedCodes :: "string \<Rightarrow> bool" where
  "untrackedCodes line =
     (\<not> conflictCodes line \<and> charAt line 0 = Some (CHR ''?'') \<and>
      charAt line 1 = Some (CHR ''?''))"

section \<open>Basic facts\<close>

lemmas op_defs = bindE_def catchE_def returnE_def throwE_def finallyE_def

lemmas str_defs = trim_def isWhiteSpace_def notSpace_def isDigit_def nonEmptyLines_def
  charAt_def parseInt_def digitValue_def

text \<open>
  The string operations compute what their JavaScript names say: \<open>str_includes\<close> is the
  test for a contiguous substring, \<open>split\<close> cuts at every separator and loses nothing else,
  and a trimmed string neither starts nor ends with white space.
\<close>

lemma str_includes_sublist: "str_includes s sub = sublist sub s"
  by (induction s) (auto simp: sublist_Cons_right)

lemma str_includes_iff: "str_includes s sub \<longleftrightarrow> (\<exists>ps ss. s = ps @ sub @ ss)"
  by (simp add: str_includes_sublist sublist_def)

lemma split_nonempty: "split d s \<noteq> []"
  by (induction s) (auto split: list.splits)

lemma split_no_separator: "l \<in> set (split d s) \<Longrightarrow> d \<notin> set l"
  by (induction s arbitrary: l) (auto split: list.splits if_splits)

lemma split_join: "joinWith d (split d s) = s"
proof (induction s)
  case Nil
  then show ?case by simp
next
  case (Cons c s)
  obtain l ls where sp: "split d s = l # ls"
    using split_nonempty [of d s] by (cases "split d s") auto
  then show ?case using Cons by (cases ls) auto
qed

lemma trim_prefix: "prefix (trim s) (dropWhile isWhiteSpace s)"
proof -
  have "rev (dropWhile isWhiteSpace (rev t)) = take (length t - length (takeWhile isWhiteSpace (rev t))) t" for t
    by (simp add: dropWhile_eq_drop rev_drop)
  then show ?thesis by (simp add: trim_def take_is_prefix)
qed

lemma trim_last: "trim s \<noteq> [] \<Longrightarrow> \<not> isWhiteSpace (last (trim s))"
  by (simp add: trim_def last_rev hd_dropWhile)

lemma trim_hd: "trim s \<noteq> [] \<Longrightarrow> \<not> isWhiteSpace (hd (trim s))"
proof -
  assume ne: "trim s \<noteq> []"
  obtain zs where z: "dropWhile isWhiteSpace s = trim s @ zs"
    using trim_prefix [of s] by (auto simp: prefix_def)
  then have "hd (trim s) = hd (dropWhile isWhiteSpace s)" using ne by simp
  moreover have "dropWhile isWhiteSpace s \<noteq> []" using z ne by auto
  ultimately show ?thesis by (simp add: hd_dropWhile)
qed

lemmas status_defs = parseStatus_def branchMatch_def matchTracking_def matchUpstream_def
  matchCount_def matchComma_def branchName_def classifyLines_def classifyLine_def

lemma classifyLine_rule:
  "classifyLine acc l =
     \<lparr>fl_staged = fl_staged acc @ (if stagedCodes l then [drop 3 l] else []),
      fl_modified = fl_modified acc @ (if modifiedCodes l then [drop 3 l] else []),
      fl_untracked = fl_untracked acc @ (if untrackedCodes l then [drop 3 l] else []),
      fl_conflicts = fl_conflicts acc @ (if conflictCodes l then [drop 3 l] else [])\<rparr>"
  by (simp add: classifyLine_def Let_def conflictCodes_def stagedCodes_def modifiedCodes_def
        untrackedCodes_def)

lemma classify_foldl:
  "foldl classifyLine acc ls =
     \<lparr>fl_staged = fl_staged acc @ map (drop 3) (filter stagedCodes ls),
      fl_modified = fl_modified acc @ map (drop 3) (filter modifiedCodes ls),
      fl_untracked = fl_untracked acc @ map (drop 3) (filter untrackedCodes ls),
      fl_conflicts = fl_conflicts acc @ map (drop 3) (filter conflictCodes ls)\<rparr>"
proof (induction ls arbitrary: acc)
  case Nil
  then show ?case by simp
next
  case (Cons l ls)
  show ?case
    unfolding foldl_Cons Cons.IH
    by (simp add: classifyLine_rule)
qed

lemma msgAuth_distinct: "msgAuthHttps \<noteq> msgAuthSsh"
  by (simp add: msgAuthHttps_def msgAuthSsh_def)

lemmas git_defs = getRemoteName_def fetch_def status_def pickRemote_def

lemma run_eq:
  "run sh g c l =
     (case sh l (gitPath g @ '' '' @ c) of
        Inl e \<Rightarrow> (Inl \<lparr>message = message e, code = code e, stderr = Some (orEmpty (stderr e)),
                        stdout = Some (orEmpty (stdout e))\<rparr>, l @ [gitPath g @ '' '' @ c])
      | Inr out \<Rightarrow> (Inr out, l @ [gitPath g @ '' '' @ c]))"
  by (simp add: run_def execAsync_def op_defs split: sum.splits)

lemma getRemoteName_log: "snd (getRemoteName sh g l) = l @ [gitPath g @ '' remote'']"
  by (simp add: getRemoteName_def run_eq op_defs split: sum.splits)

lemmas fixture_defs = exampleGit_def okOut_def failed_def

lemma push_returns: "\<exists>r l'. push sh g l = (Inr r, l')"
  by (auto simp: push_def op_defs split: prod.splits sum.splits option.splits)

lemma pushWithUpstream_returns: "\<exists>r l'. pushWithUpstream sh g l = (Inr r, l')"
  by (auto simp: pushWithUpstream_def op_defs split: prod.splits sum.splits option.splits)

lemma checkGitStatus_log:
  "checkGitStatus sh g l = (Inr chk, l1) \<Longrightarrow> check_available chk \<Longrightarrow>
     l1 = l @ [gitPath g @ '' --version'', gitPath g @ '' rev-parse --is-inside-work-tree'']"
  by (auto simp: checkGitStatus_def isGitAvailable_def isRepo_git_def execAsync_def run_eq op_defs
        split: sum.splits if_splits)

lemma hasConflicts_log:
  "snd (hasConflicts sh g l) = l @ [gitPath g @ '' diff --name-only --diff-filter=U'']"
  by (simp add: hasConflicts_def run_eq op_defs split: sum.splits)







lemma sameRecord_refl: "sameRecord m m"
  by (simp add: sameRecord_def)

lemma sameRecord_trans: "sameRecord a b \<Longrightarrow> sameRecord b c \<Longrightarrow> sameRecord a c"
  by (simp add: sameRecord_def)

lemma keeps_returnE: "keepsRecord (returnE a)"
  by (simp add: keepsRecord_def returnE_def sameRecord_refl)

lemma keeps_throwE: "keepsRecord (throwE e)"
  by (simp add: keepsRecord_def throwE_def sameRecord_refl)

lemma keeps_liftG: "keepsRecord (liftG f)"
  by (simp add: keepsRecord_def liftG_def sameRecord_refl split: prod.splits)

lemma keeps_updateStatus: "keepsRecord (updateStatus st msg)"
  by (simp add: keepsRecord_def updateStatus_def modifyM_def sameRecord_def)

lemma keeps_bindE: "keepsRecord f \<Longrightarrow> (\<And>a. keepsRecord (k a)) \<Longrightarrow> keepsRecord (bindE f k)"
  unfolding keepsRecord_def bindE_def
proof
  fix s
  assume f: "\<forall>s. sameRecord (fst s) (fst (snd (f s)))" and k: "\<And>a. \<forall>s. sameRecord (fst s) (fst (snd (k a s)))"
  obtain r s' where fs: "f s = (r, s')" by (cases "f s")
  have a: "sameRecord (fst s) (fst s')" using f fs by (metis snd_conv)
  show "sameRecord (fst s) (fst (snd (case f s of (Inl e, s') \<Rightarrow> (Inl e, s') | (Inr a, s') \<Rightarrow> k a s')))"
  proof (cases r)
    case (Inl e)
    then show ?thesis using fs a by simp
  next
    case (Inr x)
    have "sameRecord (fst s') (fst (snd (k x s')))" using k [of x] by blast
    then show ?thesis using Inr fs sameRecord_trans [OF a] by simp
  qed
qed

lemma keeps_catchE: "keepsRecord f \<Longrightarrow> (\<And>e. keepsRecord (h e)) \<Longrightarrow> keepsRecord (catchE f h)"
  unfolding keepsRecord_def catchE_def
proof
  fix s
  assume f: "\<forall>s. sameRecord (fst s) (fst (snd (f s)))" and h: "\<And>e. \<forall>s. sameRecord (fst s) (fst (snd (h e s)))"
  obtain r s' where fs: "f s = (r, s')" by (cases "f s")
  have a: "sameRecord (fst s) (fst s')" using f fs by (metis snd_conv)
  show "sameRecord (fst s) (fst (snd (case f s of (Inl e, s') \<Rightarrow> h e s' | (Inr a, s') \<Rightarrow> (Inr a, s'))))"
  proof (cases r)
    case (Inl e)
    have "sameRecord (fst s') (fst (snd (h e s')))" using h [of e] by blast
    then show ?thesis using Inl fs sameRecord_trans [OF a] by simp
  next
    case (Inr x)
    then show ?thesis using fs a by simp
  qed
qed

lemma keeps_if: "keepsRecord a \<Longrightarrow> keepsRecord b \<Longrightarrow> keepsRecord (if c then a else b)"
  by simp

lemma keeps_case_option:
  "keepsRecord a \<Longrightarrow> (\<And>x. keepsRecord (f x)) \<Longrightarrow>
     keepsRecord (case x of None \<Rightarrow> a | Some y \<Rightarrow> f y)"
  by (simp split: option.split)

lemmas keeps_intros = keeps_bindE keeps_catchE keeps_liftG keeps_updateStatus keeps_returnE
  keeps_throwE keeps_if keeps_case_option

lemma keeps_pullOnly: "keepsRecord (pullOnly sh g)"
  unfolding pullOnly_def getStatus_def
  by (intro keeps_intros)

lemma keeps_commitAndPush: "keepsRecord (commitAndPush sh g msg)"
  unfolding commitAndPush_def
  by (intro keeps_intros)

lemma pullOnly_frame: "pullOnly sh g s = (r, s') \<Longrightarrow> sameRecord (fst s) (fst s')"
  using keeps_pullOnly [of sh g] unfolding keepsRecord_def by (metis fst_conv snd_conv)

lemma commitAndPush_frame: "commitAndPush sh g msg s = (r, s') \<Longrightarrow> sameRecord (fst s) (fst s')"
  using keeps_commitAndPush [of sh g msg] unfolding keepsRecord_def by (metis fst_conv snd_conv)

lemma checkGitStatus_returns: "\<exists>chk l1. checkGitStatus sh g l = (Inr chk, l1)"
  by (auto simp: checkGitStatus_def isGitAvailable_def isRepo_git_def op_defs
        split: prod.splits sum.splits)

lemma hasConflicts_returns: "\<exists>hc l2. hasConflicts sh g l = (Inr hc, l2)"
  by (auto simp: hasConflicts_def op_defs split: prod.splits sum.splits)

lemmas sync_defs = sync_def syncTry_def syncCatch_def setLastSyncResult_def liftG_def
  updateStatus_def modifyM_def Let_def

lemmas exec_defs = checkGitStatus_def isGitAvailable_def isRepo_git_def execAsync_def
  hasConflicts_def getConflictFiles_def getCurrentBranch_def hasUpstream_def addAll_def
  commit_def commitCommand_def escapeQuotes_def nothingToCommit_def git_defs run_eq

lemma pc_check:
  "checkGitStatus pullConflictShell exampleGit [] =
     (Inr \<lparr>check_available = True, check_isRepo = True, check_error = None\<rparr>, probeLog)"
  by (simp add: exec_defs op_defs pullConflictShell_def fixture_defs probeLog_def)

lemma pc_conflicts:
  "hasConflicts pullConflictShell exampleGit probeLog = (Inr False, probeLog @ [diffCommand])"
  by (simp add: exec_defs op_defs pullConflictShell_def fixture_defs probeLog_def str_defs
        diffCommand_def)

lemma pc_start:
  "snd (updateStatus pulling ''Pulling changes...''
     (idleManager\<lparr>syncLock := True\<rparr>, probeLog @ [diffCommand])) =
   (pullingManager, probeLog @ [diffCommand])"
  by (simp add: updateStatus_def modifyM_def idleManager_def pullingManager_def)

lemma pc_pull:
  "pull pullConflictShell exampleGit
     (probeLog @ [diffCommand, ''git remote'', ''git remote'', ''git fetch origin'',
                  ''git status --porcelain=v1 --branch'']) =
     (Inr \<lparr>pull_success = False, pull_message = ''Merge conflicts detected'',
           pull_files = [], pull_conflicts = [''notes.md'']\<rparr>,
      probeLog @ [diffCommand, ''git remote'', ''git remote'', ''git fetch origin'',
                  ''git status --porcelain=v1 --branch'', ''git rev-parse --abbrev-ref HEAD'',
                  ''git remote'', ''git remote'', ''git fetch origin'',
                  ''git status --porcelain=v1 --branch'', ''git pull origin main --rebase'',
                  diffCommand, diffCommand])"
  by (simp add: pull_def exec_defs op_defs pullConflictShell_def fixture_defs probeLog_def
        str_defs status_defs diffCommand_def Let_def)

lemma pc_pullOnly:
  "pullOnly pullConflictShell exampleGit (pullingManager, probeLog @ [diffCommand]) =
     (Inr \<lparr>pull_success = False, pull_message = ''Merge conflicts detected'',
           pull_files = [], pull_conflicts = [''notes.md'']\<rparr>,
      (conflictManager, conflictLog))"
proof -
  have r: "getRemoteName pullConflictShell exampleGit (probeLog @ [diffCommand]) =
      (Inr (Some ''origin''), probeLog @ [diffCommand, ''git remote''])"
    by (simp add: exec_defs op_defs pullConflictShell_def fixture_defs str_defs diffCommand_def)
  have f: "fetch pullConflictShell exampleGit (probeLog @ [diffCommand, ''git remote'']) =
      (Inr (), probeLog @ [diffCommand, ''git remote'', ''git remote'', ''git fetch origin''])"
    by (simp add: exec_defs op_defs pullConflictShell_def fixture_defs str_defs diffCommand_def)
  have s: "status pullConflictShell exampleGit
        (probeLog @ [diffCommand, ''git remote'', ''git remote'', ''git fetch origin'']) =
      (Inr \<lparr>isRepo = True, branch = ''main'', ahead = 0, behind = 1, staged = [],
            modified = [], untracked = [], conflicts = [], clean = True\<rparr>,
       probeLog @ [diffCommand, ''git remote'', ''git remote'', ''git fetch origin'',
                  ''git status --porcelain=v1 --branch''])"
    by (simp add: exec_defs op_defs pullConflictShell_def fixture_defs str_defs status_defs
          diffCommand_def Let_def)
  show ?thesis
    using r f s pc_pull
    by (simp add: pullOnly_def liftG_def op_defs updateStatus_def modifyM_def pullingManager_def
          conflictManager_def conflictLog_def)
qed

lemma hp_check:
  "checkGitStatus happyShell exampleGit [] =
     (Inr \<lparr>check_available = True, check_isRepo = True, check_error = None\<rparr>, probeLog)"
  by (simp add: exec_defs op_defs happyShell_def fixture_defs probeLog_def)

lemma hp_conflicts:
  "hasConflicts happyShell exampleGit probeLog = (Inr False, probeLog @ [diffCommand])"
  by (simp add: exec_defs op_defs happyShell_def fixture_defs probeLog_def str_defs
        diffCommand_def)

lemma hp_status:
  "status happyShell exampleGit l =
     (Inr \<lparr>isRepo = True, branch = ''main'', ahead = 0, behind = 0, staged = [],
           modified = [''note.md''], untracked = [], conflicts = [], clean = False\<rparr>,
      l @ [''git status --porcelain=v1 --branch''])"
  by (simp add: exec_defs op_defs happyShell_def fixture_defs str_defs status_defs Let_def)

lemma hp_pullOnly:
  "pullOnly happyShell exampleGit (pullingManager, probeLog @ [diffCommand]) =
     (Inr \<lparr>pull_success = True, pull_message = ''Already up to date'',
           pull_files = [], pull_conflicts = []\<rparr>, (pullingManager, pulledLog))"
proof -
  have r: "getRemoteName happyShell exampleGit (probeLog @ [diffCommand]) =
      (Inr (Some ''origin''), probeLog @ [diffCommand, ''git remote''])"
    by (simp add: exec_defs op_defs happyShell_def fixture_defs str_defs diffCommand_def)
  have f: "fetch happyShell exampleGit (probeLog @ [diffCommand, ''git remote'']) =
      (Inr (), probeLog @ [diffCommand, ''git remote'', ''git remote'', ''git fetch origin''])"
    by (simp add: exec_defs op_defs happyShell_def fixture_defs str_defs diffCommand_def)
  show ?thesis
    using r f hp_status
    by (simp add: pullOnly_def liftG_def op_defs pulledLog_def)
qed

lemma hp_step:
  "snd (updateStatus pushing ''Committing and pushing changes...'' (pullingManager, pulledLog)) =
     (pushingManager, pulledLog)"
  by (simp add: updateStatus_def modifyM_def pullingManager_def pushingManager_def)

lemma hp_commitAndPush:
  "commitAndPush happyShell exampleGit ''backup'' (pushingManager, pulledLog) =
     (Inr \<lparr>push_success = True, push_message = msgPushOk, pushed = 1\<rparr>,
      (pushedManager, pushedLog))"
proof -
  let ?l1 = "pulledLog @ [''git status --porcelain=v1 --branch'']"
  let ?l2 = "?l1 @ [''git add -A'']"
  let ?l3 = "?l2 @ [''git commit -m '' @ [CHR 0x22] @ ''backup'' @ [CHR 0x22]]"
  let ?l4 = "?l3 @ [''git rev-parse --abbrev-ref HEAD'',
                    ''git rev-parse --abbrev-ref main@'' @ ''{upstream}'']"
  have a: "addAll happyShell exampleGit ?l1 = (Inr (), ?l2)"
    by (simp add: exec_defs op_defs happyShell_def fixture_defs)
  have c: "commit happyShell exampleGit ''backup'' ?l2 =
      (Inr \<lparr>commit_success = True, commit_message = ''Commit successful'', commit_files = 0\<rparr>,
       ?l3)"
    by (simp add: exec_defs op_defs happyShell_def fixture_defs)
  have u: "hasUpstream happyShell exampleGit ?l3 = (Inr True, ?l4)"
    by (simp add: exec_defs op_defs happyShell_def fixture_defs str_defs)
  have p: "push happyShell exampleGit ?l4 =
      (Inr \<lparr>push_success = True, push_message = msgPushOk, pushed = 1\<rparr>, pushedLog)"
    by (simp add: push_def exec_defs op_defs happyShell_def fixture_defs str_defs pushedLog_def)
  show ?thesis
    using hp_status [of pulledLog] a c u p
    by (simp add: commitAndPush_def liftG_def op_defs updateStatus_def modifyM_def
          pushingManager_def pushedManager_def)
qed

lemma cf_check:
  "checkGitStatus conflictedShell exampleGit [] =
     (Inr \<lparr>check_available = True, check_isRepo = True, check_error = None\<rparr>, probeLog)"
  by (simp add: exec_defs op_defs conflictedShell_def fixture_defs probeLog_def)

lemma cf_conflicts: "fst (hasConflicts conflictedShell exampleGit probeLog) = Inr True"
  by (simp add: exec_defs op_defs conflictedShell_def fixture_defs probeLog_def str_defs)

lemma sync_collapse:
  "sync sh g msg now s = (fst (sync sh g msg now s), (fst (snd (sync sh g msg now s)),
     snd (snd (sync sh g msg now s))))"
  by simp

text \<open>\<open>commitAndPush\<close> never throws: its handler turns every error into a result.\<close>

lemma catchE_returns:
  assumes "\<And>e t. \<exists>a t'. h e t = (Inr a, t')"
  shows "\<exists>a s'. catchE m h s = (Inr a, s')"
proof -
  obtain r t where ms: "m s = (r, t)" by (cases "m s")
  show ?thesis
  proof (cases r)
    case (Inl e)
    then show ?thesis using ms assms [of e t] by (simp add: catchE_def)
  next
    case (Inr a)
    then show ?thesis using ms by (simp add: catchE_def)
  qed
qed

lemma commitAndPush_returns: "\<exists>pu s'. commitAndPush sh g msg s = (Inr pu, s')"
  unfolding commitAndPush_def
proof (rule catchE_returns)
  fix e and t :: "SyncManager \<times> string list"
  obtain r k where "push sh g (snd t) = (Inr r, k)"
    using push_returns by blast
  then show "\<exists>a t'. (if nothingToCommit e
            then catchE (liftG (push sh g))
                   (\<lambda>pushError. returnE \<lparr>push_success = False, push_message = message pushError,
                                           pushed = 0\<rparr>)
            else returnE \<lparr>push_success = False, push_message = message e, pushed = 0\<rparr>) t =
           (Inr a, t')"
    by (simp add: catchE_def returnE_def liftG_def)
qed

text \<open>What a full sync records, path by path.\<close>

lemma of_check:
  "checkGitStatus offlineShell exampleGit [] =
     (Inr \<lparr>check_available = True, check_isRepo = True, check_error = None\<rparr>, probeLog)"
  by (simp add: exec_defs op_defs offlineShell_def fixture_defs probeLog_def)

lemma of_conflicts:
  "hasConflicts offlineShell exampleGit probeLog = (Inr False, probeLog @ [diffCommand])"
  by (simp add: exec_defs op_defs offlineShell_def fixture_defs probeLog_def str_defs
        diffCommand_def)

lemma of_pullOnly:
  "pullOnly offlineShell exampleGit (pullingManager, probeLog @ [diffCommand]) =
     (Inl offlineError, (pullingManager, offlineLog))"
proof -
  have r: "getRemoteName offlineShell exampleGit (probeLog @ [diffCommand]) =
      (Inr (Some ''origin''), probeLog @ [diffCommand, ''git remote''])"
    by (simp add: exec_defs op_defs offlineShell_def fixture_defs str_defs diffCommand_def)
  have f: "fetch offlineShell exampleGit (probeLog @ [diffCommand, ''git remote'']) =
      (Inl offlineError,
       probeLog @ [diffCommand, ''git remote'', ''git remote'', ''git fetch origin''])"
    by (simp add: exec_defs op_defs offlineShell_def fixture_defs str_defs diffCommand_def
          offlineError_def orEmpty_def)
  have h: "hasConflicts offlineShell exampleGit
        (probeLog @ [diffCommand, ''git remote'', ''git remote'', ''git fetch origin'']) =
      (Inr False, offlineLog)"
    by (simp add: exec_defs op_defs offlineShell_def fixture_defs str_defs diffCommand_def
          offlineLog_def)
  show ?thesis
    using r f h by (simp add: pullOnly_def liftG_def op_defs)
qed

lemma pullOnly_keeps_time:
  assumes "pullOnly sh g (snd (updateStatus st txt (m, l))) = (r, s')"
  shows "lastSyncTime (fst s') = lastSyncTime m"
proof -
  have "sameRecord (fst (snd (updateStatus st txt (m, l)))) (fst s')"
    using assms pullOnly_frame by blast
  then show ?thesis by (simp add: sameRecord_def updateStatus_def modifyM_def)
qed

lemma commitAndPush_keeps_time:
  assumes "commitAndPush sh g msg (snd (updateStatus st txt s)) = (r, s')"
  shows "lastSyncTime (fst s') = lastSyncTime (fst s)"
proof -
  have "sameRecord (fst (snd (updateStatus st txt s))) (fst s')"
    using assms commitAndPush_frame by blast
  then show ?thesis by (simp add: sameRecord_def updateStatus_def modifyM_def)
qed

lemma sync_when_busy:
  assumes "sync sh g msg now (m, l) = (res, (m', l'))" and "syncLock m"
  shows "m' = m \<and> l' = l"
  using assms by (auto simp: sync_def)

lemma sync_early_abort:
  assumes run: "sync sh g msg now (m, l) = (res, (m', l'))" and "\<not> syncLock m"
    and "checkGitStatus sh g l = (Inr chk, l1)"
    and "\<not> check_available chk \<or> \<not> check_isRepo chk \<or> fst (hasConflicts sh g l1) = Inr True"
  shows "lastSyncTime m' = lastSyncTime m \<and> lastSyncResult m' = lastSyncResult m"
proof -
  obtain hc k where "hasConflicts sh g l1 = (hc, k)" by (cases "hasConflicts sh g l1")
  then show ?thesis
    using assms by (auto simp: sync_defs op_defs split: if_splits)
qed

lemma sync_pull_conflict:
  assumes run: "sync sh g msg now (m, l) = (res, (m', l'))" and "\<not> syncLock m"
    and "checkGitStatus sh g l = (Inr chk, l1)" and "check_available chk" and "check_isRepo chk"
    and "hasConflicts sh g l1 = (Inr False, l2)"
    and p: "pullOnly sh g (snd (updateStatus pulling ''Pulling changes...'' (m\<lparr>syncLock := True\<rparr>, l2))) = (Inr pr, s3)"
    and "\<not> pull_success pr" and "pull_conflicts pr \<noteq> []"
  shows "lastSyncTime m' = lastSyncTime m \<and>
     lastSyncResult m' =
       Some \<lparr>sync_success = False, sync_message = ''Merge conflicts after pull'',
            sync_pulled = None, sync_pushed = None,
            sync_conflicts = Some (pull_conflicts pr)\<rparr>"
  using assms pullOnly_keeps_time [OF p]
  by (auto simp: sync_defs op_defs split: if_splits)

lemma sync_thrown:
  assumes run: "sync sh g msg now (m, l) = (res, (m', l'))" and "\<not> syncLock m"
    and "checkGitStatus sh g l = (Inr chk, l1)" and "check_available chk" and "check_isRepo chk"
    and "hasConflicts sh g l1 = (Inr False, l2)"
    and p: "pullOnly sh g (snd (updateStatus pulling ''Pulling changes...'' (m\<lparr>syncLock := True\<rparr>, l2))) = (Inl e, s3)"
  shows "lastSyncTime m' = lastSyncTime m \<and>
     lastSyncResult m' =
       Some \<lparr>sync_success = False,
            sync_message = (if message e = [] then ''Unknown error during sync'' else message e),
            sync_pulled = None, sync_pushed = None, sync_conflicts = None\<rparr>"
  using assms pullOnly_keeps_time [OF p]
  by (auto simp: sync_defs op_defs split: if_splits)

lemma sync_step5:
  assumes run: "sync sh g msg now (m, l) = (res, (m', l'))" and "\<not> syncLock m"
    and "checkGitStatus sh g l = (Inr chk, l1)" and "check_available chk" and "check_isRepo chk"
    and "hasConflicts sh g l1 = (Inr False, l2)"
    and p: "pullOnly sh g (snd (updateStatus pulling ''Pulling changes...'' (m\<lparr>syncLock := True\<rparr>, l2))) = (Inr pr, s3)"
    and "pull_success pr \<or> pull_conflicts pr = []"
    and u: "commitAndPush sh g msg (snd (updateStatus pushing ''Committing and pushing changes...'' s3)) = (Inr pu, s4)"
  shows "lastSyncTime m' = (if push_success pu then Some now else lastSyncTime m) \<and>
     lastSyncResult m' =
       Some (if push_success pu
            then \<lparr>sync_success = True, sync_message = ''Sync completed'',
                  sync_pulled = Some (length (pull_files pr)),
                  sync_pushed = Some (pushed pu), sync_conflicts = None\<rparr>
            else \<lparr>sync_success = False, sync_message = push_message pu,
                  sync_pulled = None, sync_pushed = None, sync_conflicts = None\<rparr>)"
  using assms pullOnly_keeps_time [OF p] commitAndPush_keeps_time [OF u]
  by (auto simp: sync_defs op_defs split: if_splits)

section \<open>Properties of status\<close>

text \<open>
  C3, as the code has it. For every output of the status command, each of the four lists
  holds exactly the file names of the status lines that the rule above sends there, in the
  order of the lines: a line with \<open>U\<close> as either code, with both codes \<open>A\<close> or with both
  codes \<open>D\<close> contributes to \<open>conflicts\<close> and to no other list; any other line contributes to
  \<open>staged\<close> when its index code is neither a space nor \<open>?\<close>, to \<open>modified\<close> when its
  work-tree code is neither a space nor \<open>?\<close>, and to \<open>untracked\<close> when both codes are \<open>?\<close>.
\<close>

theorem status_classification:
  "staged (parseStatus out) = map (drop 3) (filter stagedCodes (tl (nonEmptyLines out))) \<and>
   modified (parseStatus out) = map (drop 3) (filter modifiedCodes (tl (nonEmptyLines out))) \<and>
   untracked (parseStatus out) = map (drop 3) (filter untrackedCodes (tl (nonEmptyLines out))) \<and>
   conflicts (parseStatus out) = map (drop 3) (filter conflictCodes (tl (nonEmptyLines out)))"
  by (simp add: parseStatus_def Let_def classifyLines_def classify_foldl)

text \<open>
  C3 as stated fails: the pair \<open>UD\<close> is neither both \<open>U\<close>, both \<open>A\<close> nor both \<open>D\<close>, and its
  index code \<open>U\<close> and work-tree code \<open>D\<close> are neither a space nor \<open>?\<close>, yet the path is
  listed under \<open>conflicts\<close> only, not under \<open>staged\<close> or \<open>modified\<close>.
\<close>

theorem status_unmerged_pair_counterexample:
  "fst (status (\<lambda>l c. okOut (''## main'' @ [CHR 0x0A] @ ''UD a.md'' @ [CHR 0x0A])) exampleGit []) =
     Inr \<lparr>isRepo = True, branch = ''main'', ahead = 0, behind = 0, staged = [],
          modified = [], untracked = [], conflicts = [''a.md''], clean = False\<rparr>"
  by (simp add: status_def run_def execAsync_def op_defs okOut_def status_defs str_defs
        exampleGit_def Let_def)

text \<open>
  C10. The status line \<open>MM a.md\<close> is no conflict line and both its codes are change
  codes: \<open>status\<close> lists \<open>a.md\<close> under \<open>staged\<close> and under \<open>modified\<close>.
\<close>

theorem status_staged_modified_overlap:
  "fst (status (\<lambda>l c. okOut (''## main'' @ [CHR 0x0A] @ ''MM a.md'' @ [CHR 0x0A])) exampleGit []) =
     Inr \<lparr>isRepo = True, branch = ''main'', ahead = 0, behind = 0, staged = [''a.md''],
          modified = [''a.md''], untracked = [], conflicts = [], clean = False\<rparr>"
  by (simp add: status_def run_def execAsync_def op_defs okOut_def status_defs str_defs
        exampleGit_def Let_def)

section \<open>Properties of push\<close>

text \<open>
  C9. \<open>push\<close> and \<open>pushWithUpstream\<close> always return a result, whatever the shell answers,
  and its counter \<open>pushed\<close> is 1 when the result is a success and 0 when it is a failure.
\<close>

theorem pushed_is_flag:
  "(\<exists>r. fst (push sh g l) = Inr r \<and> pushed r = (if push_success r then 1 else 0)) \<and>
   (\<exists>r. fst (pushWithUpstream sh g l) = Inr r \<and>
        pushed r = (if push_success r then 1 else 0))"
  by (auto simp: push_def pushWithUpstream_def op_defs
        split: prod.splits sum.splits option.splits)

text \<open>
  C6, as the code has it. A stderr text containing \<open>Authentication failed\<close> gets the
  HTTPS-credential message. A stderr text containing \<open>Permission denied (publickey)\<close> gets
  the SSH-key message when it contains none of the three HTTPS markers
  (\<open>Authentication failed\<close>, \<open>403\<close>, \<open>fatal: unable to access\<close>), which are tested first.
  The two messages differ, so no stderr text gets both.
\<close>

theorem push_error_classification:
  "(str_includes (orEmpty (stderr e)) ''Authentication failed'' \<longrightarrow>
      parsePushError e = msgAuthHttps) \<and>
   (str_includes (orEmpty (stderr e)) ''Permission denied (publickey)'' \<and>
    \<not> str_includes (orEmpty (stderr e)) ''Authentication failed'' \<and>
    \<not> str_includes (orEmpty (stderr e)) ''403'' \<and>
    \<not> str_includes (orEmpty (stderr e)) ''fatal: unable to access'' \<longrightarrow>
      parsePushError e = msgAuthSsh) \<and>
   msgAuthHttps \<noteq> msgAuthSsh"
  by (simp add: parsePushError_def Let_def msgAuth_distinct)

theorem push_error_classification_witness:
  "parsePushError (gitError ''remote: Authentication failed for https://example.com/notes.git'') =
     msgAuthHttps \<and>
   parsePushError (gitError ''git@github.com: Permission denied (publickey).'') = msgAuthSsh \<and>
   msgAuthHttps \<noteq> msgAuthSsh"
  using push_error_classification
          [of "gitError ''remote: Authentication failed for https://example.com/notes.git''"]
        push_error_classification [of "gitError ''git@github.com: Permission denied (publickey).''"]
  by (simp add: gitError_def orEmpty_def)

text \<open>
  C6 as stated fails: this stderr text contains \<open>Permission denied (publickey)\<close>, and also
  \<open>403\<close> (in a port number), and it gets the HTTPS-credential message, not the SSH-key one.
\<close>

theorem push_error_ssh_counterexample:
  "str_includes ''[git.example.com]:40322: Permission denied (publickey).''
     ''Permission denied (publickey)'' \<and>
   parsePushError (gitError ''[git.example.com]:40322: Permission denied (publickey).'') =
     msgAuthHttps \<and>
   msgAuthHttps \<noteq> msgAuthSsh"
  by (simp add: parsePushError_def Let_def gitError_def orEmpty_def msgAuth_distinct)

section \<open>Properties of pullOnly\<close>

text \<open>
  C8. When \<open>getRemoteName\<close> finds no remote, \<open>pullOnly\<close> succeeds with an empty file list,
  and the one command it has run is \<open>remote\<close>: neither \<open>fetch\<close> nor \<open>pull\<close>. When a remote
  exists, the fetch succeeds and the status read after it is not behind, \<open>pullOnly\<close>
  succeeds with an empty file list as well.
\<close>

theorem pullOnly_trivial:
  "(fst (getRemoteName sh g l) = Inr None \<longrightarrow>
      pullOnly sh g (m, l) =
        (Inr \<lparr>pull_success = True, pull_message = ''No remote configured, skipping pull'',
              pull_files = [], pull_conflicts = []\<rparr>, (m, l @ [gitPath g @ '' remote'']))) \<and>
   (getRemoteName sh g l = (Inr (Some r), l1) \<and> fetch sh g l1 = (Inr (), l2) \<and>
    status sh g l2 = (Inr st, l3) \<and> behind st = 0 \<longrightarrow>
      pullOnly sh g (m, l) =
        (Inr \<lparr>pull_success = True, pull_message = ''Already up to date'',
              pull_files = [], pull_conflicts = []\<rparr>, (m, l3)))"
proof (intro conjI impI)
  assume none: "fst (getRemoteName sh g l) = Inr None"
  have "getRemoteName sh g l = (Inr None, l @ [gitPath g @ '' remote''])"
    using none getRemoteName_log [of sh g l] by (simp add: prod_eq_iff)
  then show "pullOnly sh g (m, l) =
        (Inr \<lparr>pull_success = True, pull_message = ''No remote configured, skipping pull'',
              pull_files = [], pull_conflicts = []\<rparr>, (m, l @ [gitPath g @ '' remote'']))"
    by (simp add: pullOnly_def liftG_def op_defs)
next
  assume "getRemoteName sh g l = (Inr (Some r), l1) \<and> fetch sh g l1 = (Inr (), l2) \<and>
    status sh g l2 = (Inr st, l3) \<and> behind st = 0"
  then show "pullOnly sh g (m, l) =
        (Inr \<lparr>pull_success = True, pull_message = ''Already up to date'',
              pull_files = [], pull_conflicts = []\<rparr>, (m, l3))"
    by (simp add: pullOnly_def liftG_def op_defs)
qed

theorem pullOnly_trivial_witness:
  "pullOnly noRemoteShell exampleGit (idleManager, []) =
     (Inr \<lparr>pull_success = True, pull_message = ''No remote configured, skipping pull'',
           pull_files = [], pull_conflicts = []\<rparr>, (idleManager, [''git remote''])) \<and>
   pullOnly upToDateShell exampleGit (idleManager, []) =
     (Inr \<lparr>pull_success = True, pull_message = ''Already up to date'',
           pull_files = [], pull_conflicts = []\<rparr>,
      (idleManager, [''git remote'', ''git remote'', ''git fetch origin'',
                     ''git status --porcelain=v1 --branch'']))"
proof -
  have a: "fst (getRemoteName noRemoteShell exampleGit []) = Inr None"
    by (simp add: git_defs run_eq op_defs noRemoteShell_def exampleGit_def okOut_def str_defs)
  have b: "getRemoteName upToDateShell exampleGit [] = (Inr (Some ''origin''), [''git remote''])"
    by (simp add: git_defs run_eq op_defs upToDateShell_def exampleGit_def okOut_def str_defs)
  have c: "fetch upToDateShell exampleGit [''git remote''] =
      (Inr (), [''git remote'', ''git remote'', ''git fetch origin''])"
    by (simp add: git_defs run_eq op_defs upToDateShell_def exampleGit_def okOut_def str_defs)
  have d: "status upToDateShell exampleGit [''git remote'', ''git remote'', ''git fetch origin''] =
      (Inr (parseStatus (''## main...origin/main [ahead 1]'' @ [CHR 0x0A])),
       [''git remote'', ''git remote'', ''git fetch origin'',
        ''git status --porcelain=v1 --branch''])"
    by (simp add: git_defs run_eq op_defs upToDateShell_def exampleGit_def okOut_def)
  have e: "behind (parseStatus (''## main...origin/main [ahead 1]'' @ [CHR 0x0A])) = 0"
    by (simp add: status_defs str_defs Let_def)
  from pullOnly_trivial [where sh = noRemoteShell and g = exampleGit and l = "[]"
      and m = idleManager] a
    pullOnly_trivial [where sh = upToDateShell and g = exampleGit and l = "[]"
      and m = idleManager and r = "''origin''" and ?l1.0 = "[''git remote'']"
      and ?l2.0 = "[''git remote'', ''git remote'', ''git fetch origin'']"
      and st = "parseStatus (''## main...origin/main [ahead 1]'' @ [CHR 0x0A])"
      and ?l3.0 = "[''git remote'', ''git remote'', ''git fetch origin'',
                     ''git status --porcelain=v1 --branch'']"] b c d e
  show ?thesis by (simp add: exampleGit_def)
qed

section \<open>Properties of commit and commitAndPush\<close>

text \<open>
  C7. When the commit command fails, \<open>commit\<close> fails with the error of the command, except
  when the standard output of the failed command contains \<open>nothing to commit\<close>: then it
  returns a successful result. (When the command succeeds, so does \<open>commit\<close>.) In
  \<open>commitAndPush\<close> on a tree that is not clean, a commit step that fails with
  \<open>nothing to commit\<close> does not end the operation: its result is that of the push that
  follows (\<open>push\<close> when an upstream is configured, else \<open>pushWithUpstream\<close>).
\<close>

theorem commit_nothing_to_commit:
  "(sh l (gitPath g @ '' '' @ commitCommand msg) = Inr out \<longrightarrow>
      fst (commit sh g msg l) =
        Inr \<lparr>commit_success = True, commit_message = ''Commit successful'', commit_files = 0\<rparr>) \<and>
   (sh l (gitPath g @ '' '' @ commitCommand msg) = Inl e \<and>
    str_includes (orEmpty (stdout e)) ''nothing to commit'' \<longrightarrow>
      fst (commit sh g msg l) =
        Inr \<lparr>commit_success = True, commit_message = ''Nothing to commit'', commit_files = 0\<rparr>) \<and>
   (sh l (gitPath g @ '' '' @ commitCommand msg) = Inl e \<and>
    \<not> str_includes (orEmpty (stdout e)) ''nothing to commit'' \<longrightarrow>
      fst (commit sh g msg l) =
        Inl \<lparr>message = message e, code = code e, stderr = Some (orEmpty (stderr e)),
             stdout = Some (orEmpty (stdout e))\<rparr>) \<and>
   (status sh g l = (Inr st, l1) \<and> \<not> clean st \<and> addAll sh g l1 = (Inr (), l2) \<and>
    sh l2 (gitPath g @ '' '' @ commitCommand msg) = Inl e \<and>
    str_includes (orEmpty (stdout e)) ''nothing to commit'' \<and>
    hasUpstream sh g (l2 @ [gitPath g @ '' '' @ commitCommand msg]) = (Inr up, l3) \<longrightarrow>
      commitAndPush sh g msg (m, l) =
        liftG (if up then push sh g else pushWithUpstream sh g)
          (snd (updateStatus pushing ''Pushing changes...'' (m, l3))))"
proof (intro conjI impI)
  assume h: "status sh g l = (Inr st, l1) \<and> \<not> clean st \<and> addAll sh g l1 = (Inr (), l2) \<and>
    sh l2 (gitPath g @ '' '' @ commitCommand msg) = Inl e \<and>
    str_includes (orEmpty (stdout e)) ''nothing to commit'' \<and>
    hasUpstream sh g (l2 @ [gitPath g @ '' '' @ commitCommand msg]) = (Inr up, l3)"
  obtain r1 k1 where p1: "push sh g l3 = (Inr r1, k1)"
    using push_returns [of sh g l3] by blast
  obtain r2 k2 where p2: "pushWithUpstream sh g l3 = (Inr r2, k2)"
    using pushWithUpstream_returns [of sh g l3] by blast
  have c: "commit sh g msg l2 =
      (Inr \<lparr>commit_success = True, commit_message = ''Nothing to commit'', commit_files = 0\<rparr>,
       l2 @ [gitPath g @ '' '' @ commitCommand msg])"
    using h by (simp add: commit_def run_eq op_defs nothingToCommit_def)
  show "commitAndPush sh g msg (m, l) =
        liftG (if up then push sh g else pushWithUpstream sh g)
          (snd (updateStatus pushing ''Pushing changes...'' (m, l3)))"
    using h c p1 p2
    by (simp add: commitAndPush_def liftG_def op_defs updateStatus_def modifyM_def)
qed (simp_all add: commit_def run_eq op_defs nothingToCommit_def)

theorem commit_nothing_to_commit_witness:
  "fst (commit raceShell exampleGit ''backup'' []) =
     Inr \<lparr>commit_success = True, commit_message = ''Nothing to commit'', commit_files = 0\<rparr> \<and>
   fst (commit noRemoteShell exampleGit ''backup'' []) =
     Inl \<lparr>message = ''Command failed'', code = Some ''1'',
          stderr = Some ''fatal: unexpected command'', stdout = Some []\<rparr> \<and>
   commitAndPush raceShell exampleGit ''backup'' (idleManager, []) =
     (Inr \<lparr>push_success = True, push_message = msgPushOk, pushed = 1\<rparr>,
      (idleManager\<lparr>statusCalls := [(pushing, ''Pushing changes...'')]\<rparr>,
       [''git status --porcelain=v1 --branch'', ''git add -A'',
        ''git commit -m '' @ [CHR 0x22] @ ''backup'' @ [CHR 0x22],
        ''git rev-parse --abbrev-ref HEAD'', ''git rev-parse --abbrev-ref main@'' @ ''{upstream}'',
        ''git rev-parse --abbrev-ref HEAD'', ''git remote'', ''git push origin main'']))"
proof -
  let ?st = "parseStatus (''## main...origin/main'' @ [CHR 0x0A] @ '' M note.md'' @ [CHR 0x0A])"
  let ?l1 = "[''git status --porcelain=v1 --branch'']"
  let ?l2 = "[''git status --porcelain=v1 --branch'', ''git add -A'']"
  let ?c = "''git commit -m '' @ [CHR 0x22] @ ''backup'' @ [CHR 0x22]"
  let ?l3 = "[''git status --porcelain=v1 --branch'', ''git add -A'', ?c,
        ''git rev-parse --abbrev-ref HEAD'', ''git rev-parse --abbrev-ref main@'' @ ''{upstream}'']"
  have cmd: "gitPath exampleGit @ '' '' @ commitCommand ''backup'' = ?c"
    by (simp add: exampleGit_def commitCommand_def escapeQuotes_def)
  have e1: "raceShell [] ?c = Inl raceError" and e2: "raceShell ?l2 ?c = Inl raceError"
    by (simp_all add: raceShell_def failed_def raceError_def)
  have inc: "str_includes (orEmpty (stdout raceError)) ''nothing to commit''"
    by (simp add: raceError_def orEmpty_def)
  have e3: "noRemoteShell [] ?c = Inl \<lparr>message = ''Command failed'', code = Some ''1'',
          stderr = Some ''fatal: unexpected command'', stdout = Some []\<rparr>"
    by (simp add: noRemoteShell_def failed_def)
  have s: "status raceShell exampleGit [] = (Inr ?st, ?l1)"
    by (simp add: status_def run_eq op_defs raceShell_def fixture_defs)
  have ncl: "\<not> clean ?st"
    by (simp add: status_defs str_defs Let_def)
  have a: "addAll raceShell exampleGit ?l1 = (Inr (), ?l2)"
    by (simp add: addAll_def run_eq op_defs raceShell_def fixture_defs)
  have u: "hasUpstream raceShell exampleGit (?l2 @ [?c]) = (Inr True, ?l3)"
    by (simp add: hasUpstream_def getCurrentBranch_def run_eq op_defs raceShell_def fixture_defs
          str_defs)
  have p: "push raceShell exampleGit ?l3 =
      (Inr \<lparr>push_success = True, push_message = msgPushOk, pushed = 1\<rparr>,
       ?l3 @ [''git rev-parse --abbrev-ref HEAD'', ''git remote'', ''git push origin main''])"
    by (simp add: push_def getCurrentBranch_def git_defs run_eq op_defs raceShell_def
          fixture_defs str_defs)
  from commit_nothing_to_commit [where sh = raceShell and g = exampleGit and msg = "''backup''"
      and l = "[]" and e = raceError and st = ?st and ?l1.0 = ?l1 and ?l2.0 = ?l2 and up = True
      and ?l3.0 = ?l3 and m = idleManager]
    commit_nothing_to_commit [where sh = noRemoteShell and g = exampleGit and msg = "''backup''"
      and l = "[]" and e = "\<lparr>message = ''Command failed'', code = Some ''1'',
          stderr = Some ''fatal: unexpected command'', stdout = Some []\<rparr>"]
    cmd e1 e2 inc e3 s ncl a u p
  show ?thesis
    by (simp add: liftG_def updateStatus_def modifyM_def idleManager_def orEmpty_def)
qed

section \<open>Properties of sync\<close>

text \<open>
  C4. A full sync that gets the lock, finds git available and the directory a repository,
  and then finds \<open>hasConflicts\<close> true, returns the conflict verdict. The commands it has
  run are the three probes \<open>--version\<close>, \<open>rev-parse --is-inside-work-tree\<close> and
  \<open>diff --name-only --diff-filter=U\<close>, and nothing else: no fetch, pull, stash or push.
\<close>

theorem sync_preexisting_conflict:
  "\<not> syncLock m \<and> checkGitStatus sh g l = (Inr chk, l1) \<and> check_available chk \<and>
   check_isRepo chk \<and> hasConflicts sh g l1 = (Inr True, l2) \<longrightarrow>
     fst (sync sh g msg now (m, l)) =
       Inr \<lparr>sync_success = False,
            sync_message = ''Merge conflicts detected. Please resolve them manually.'',
            sync_pulled = None, sync_pushed = None, sync_conflicts = Some []\<rparr> \<and>
     snd (snd (sync sh g msg now (m, l))) =
       l @ [gitPath g @ '' --version'', gitPath g @ '' rev-parse --is-inside-work-tree'',
            gitPath g @ '' diff --name-only --diff-filter=U'']"
proof (intro impI)
  assume h: "\<not> syncLock m \<and> checkGitStatus sh g l = (Inr chk, l1) \<and> check_available chk \<and>
   check_isRepo chk \<and> hasConflicts sh g l1 = (Inr True, l2)"
  have l1: "l1 = l @ [gitPath g @ '' --version'', gitPath g @ '' rev-parse --is-inside-work-tree'']"
    using h checkGitStatus_log by blast
  have l2: "l2 = l1 @ [gitPath g @ '' diff --name-only --diff-filter=U'']"
    using h hasConflicts_log [of sh g l1] by simp
  show "fst (sync sh g msg now (m, l)) =
       Inr \<lparr>sync_success = False,
            sync_message = ''Merge conflicts detected. Please resolve them manually.'',
            sync_pulled = None, sync_pushed = None, sync_conflicts = Some []\<rparr> \<and>
     snd (snd (sync sh g msg now (m, l))) =
       l @ [gitPath g @ '' --version'', gitPath g @ '' rev-parse --is-inside-work-tree'',
            gitPath g @ '' diff --name-only --diff-filter=U'']"
    using h l1 l2
    by (simp add: sync_def syncTry_def liftG_def op_defs updateStatus_def modifyM_def)
qed

theorem sync_preexisting_conflict_witness:
  "fst (sync conflictedShell exampleGit ''backup'' 2000 (idleManager, [])) =
       Inr \<lparr>sync_success = False,
            sync_message = ''Merge conflicts detected. Please resolve them manually.'',
            sync_pulled = None, sync_pushed = None, sync_conflicts = Some []\<rparr> \<and>
     snd (snd (sync conflictedShell exampleGit ''backup'' 2000 (idleManager, []))) =
       [''git --version'', ''git rev-parse --is-inside-work-tree'',
        ''git diff --name-only --diff-filter=U'']"
proof -
  have a: "checkGitStatus conflictedShell exampleGit [] =
      (Inr \<lparr>check_available = True, check_isRepo = True, check_error = None\<rparr>,
       [''git --version'', ''git rev-parse --is-inside-work-tree''])"
    by (simp add: checkGitStatus_def isGitAvailable_def isRepo_git_def execAsync_def run_eq op_defs
          conflictedShell_def fixture_defs)
  have b: "hasConflicts conflictedShell exampleGit
        [''git --version'', ''git rev-parse --is-inside-work-tree''] =
      (Inr True, [''git --version'', ''git rev-parse --is-inside-work-tree'',
        ''git diff --name-only --diff-filter=U''])"
    by (simp add: hasConflicts_def run_eq op_defs conflictedShell_def fixture_defs str_defs)
  from sync_preexisting_conflict [where sh = conflictedShell and g = exampleGit and l = "[]"
      and m = idleManager and msg = "''backup''" and now = 2000
      and chk = "\<lparr>check_available = True, check_isRepo = True, check_error = None\<rparr>"
      and ?l1.0 = "[''git --version'', ''git rev-parse --is-inside-work-tree'']"
      and ?l2.0 = "[''git --version'', ''git rev-parse --is-inside-work-tree'',
        ''git diff --name-only --diff-filter=U'']"] a b
  show ?thesis by (simp add: idleManager_def exampleGit_def)
qed

text \<open>
  C1, as the code has it. A full sync invoked while the lock is held returns the busy
  verdict at once: no command is run and no field of the manager changes, \<open>lastSyncTime\<close>
  included. The plugin's commands for sync, pull and commit-and-push test \<open>isSyncing\<close>
  first and, while the lock is held, only show the busy notice: the manager is not called.
\<close>

theorem busy_rejected:
  "syncLock m \<longrightarrow>
     sync sh g msg now (m, l) =
       (Inr \<lparr>sync_success = False, sync_message = ''Sync already in progress'',
             sync_pulled = None, sync_pushed = None, sync_conflicts = None\<rparr>, (m, l)) \<and>
     plugin_sync shown sh g msg now (ns, m, l) =
       (Inr (), (if shown then ns @ [(noticePrefix @ noticeBusy, False)] else ns, m, l)) \<and>
     plugin_pull shown sh g (ns, m, l) =
       (Inr (), (if shown then ns @ [(noticePrefix @ noticeBusy, False)] else ns, m, l)) \<and>
     plugin_commitAndPush shown sh g msg (ns, m, l) =
       (Inr (), (if shown then ns @ [(noticePrefix @ noticeBusy, False)] else ns, m, l))"
  by (simp add: sync_def plugin_sync_def plugin_pull_def plugin_commitAndPush_def isSyncing_def
        showNotice_def)

theorem busy_rejected_witness:
  "sync noRemoteShell exampleGit ''backup'' 2000 (busyManager, []) =
       (Inr \<lparr>sync_success = False, sync_message = ''Sync already in progress'',
             sync_pulled = None, sync_pushed = None, sync_conflicts = None\<rparr>, (busyManager, [])) \<and>
     plugin_sync True noRemoteShell exampleGit ''backup'' 2000 ([], busyManager, []) =
       (Inr (), ([(noticePrefix @ noticeBusy, False)], busyManager, [])) \<and>
     plugin_pull True noRemoteShell exampleGit ([], busyManager, []) =
       (Inr (), ([(noticePrefix @ noticeBusy, False)], busyManager, [])) \<and>
     plugin_commitAndPush True noRemoteShell exampleGit ''backup'' ([], busyManager, []) =
       (Inr (), ([(noticePrefix @ noticeBusy, False)], busyManager, []))"
  using busy_rejected [where m = busyManager and sh = noRemoteShell and g = exampleGit
      and msg = "''backup''" and now = 2000 and l = "[]" and ns = "[]" and shown = True]
  by (simp add: busyManager_def)

text \<open>
  C1 as stated fails for the manager's \<open>pullOnly\<close>, which does not look at the lock: called
  while the lock is held it runs its commands and returns its usual result.
\<close>

theorem pullOnly_ignores_lock_counterexample:
  "syncLock busyManager \<and>
   pullOnly noRemoteShell exampleGit (busyManager, []) =
     (Inr \<lparr>pull_success = True, pull_message = ''No remote configured, skipping pull'',
           pull_files = [], pull_conflicts = []\<rparr>, (busyManager, [''git remote'']))"
  by (simp add: busyManager_def pullOnly_def liftG_def git_defs run_eq op_defs noRemoteShell_def
        fixture_defs str_defs)

section \<open>Properties of pull\<close>




text \<open>
  C5, as the code has it. Let \<open>m'\<close> be the manager after a full sync started on \<open>m\<close>.
  \<^item> While the lock is held the sync changes nothing at all.
  \<^item> When git is unavailable, the directory is no repository, or a conflict exists at entry,
    \<open>lastSyncTime\<close> and \<open>lastSyncResult\<close> are unchanged.
  \<^item> When \<open>pullOnly\<close> reports conflicts, \<open>lastSyncTime\<close> is unchanged and \<open>lastSyncResult\<close>
    is set to the conflict verdict.
  \<^item> When \<open>commitAndPush\<close> is reached and returns, \<open>lastSyncResult\<close> is set to the verdict
    made of its result, and \<open>lastSyncTime\<close> is set to the current time when that result is
    a success and unchanged when it is a failure.
  \<^item> In every run, \<open>lastSyncTime\<close> is either unchanged or set on the path where
    \<open>commitAndPush\<close> was reached and returned a success.
  \<^item> When \<open>pullOnly\<close> throws, the \<open>catch\<close> block of \<open>sync\<close> leaves \<open>lastSyncTime\<close>
    unchanged and sets \<open>lastSyncResult\<close> to the error verdict made of the error's message.
  \<^item> In every run, \<open>lastSyncResult\<close> is either unchanged, or the run has passed the three
    checks and called \<open>pullOnly\<close>, and \<open>lastSyncResult\<close> is the error verdict when
    \<open>pullOnly\<close> threw, the conflict verdict when it reported conflicts, and otherwise the
    verdict made of the result that \<open>commitAndPush\<close> returned. There is no other path
    that records it.
\<close>

theorem sync_record_updates:
  assumes run: "sync sh g msg now (m, l) = (res, (m', l'))"
  shows
   "(syncLock m \<longrightarrow> m' = m \<and> l' = l) \<and>
    (\<not> syncLock m \<and> checkGitStatus sh g l = (Inr chk, l1) \<and>
     (\<not> check_available chk \<or> \<not> check_isRepo chk \<or> fst (hasConflicts sh g l1) = Inr True) \<longrightarrow>
       lastSyncTime m' = lastSyncTime m \<and> lastSyncResult m' = lastSyncResult m) \<and>
    (\<not> syncLock m \<and> checkGitStatus sh g l = (Inr chk, l1) \<and> check_available chk \<and>
     check_isRepo chk \<and> hasConflicts sh g l1 = (Inr False, l2) \<and>
     pullOnly sh g (snd (updateStatus pulling ''Pulling changes...'' (m\<lparr>syncLock := True\<rparr>, l2))) =
       (Inr pr, s3) \<and>
     \<not> pull_success pr \<and> pull_conflicts pr \<noteq> [] \<longrightarrow>
       lastSyncTime m' = lastSyncTime m \<and>
       lastSyncResult m' =
         Some \<lparr>sync_success = False, sync_message = ''Merge conflicts after pull'',
               sync_pulled = None, sync_pushed = None,
               sync_conflicts = Some (pull_conflicts pr)\<rparr>) \<and>
    (\<not> syncLock m \<and> checkGitStatus sh g l = (Inr chk, l1) \<and> check_available chk \<and>
     check_isRepo chk \<and> hasConflicts sh g l1 = (Inr False, l2) \<and>
     pullOnly sh g (snd (updateStatus pulling ''Pulling changes...'' (m\<lparr>syncLock := True\<rparr>, l2))) =
       (Inr pr, s3) \<and>
     (pull_success pr \<or> pull_conflicts pr = []) \<and>
     commitAndPush sh g msg
       (snd (updateStatus pushing ''Committing and pushing changes...'' s3)) = (Inr pu, s4) \<longrightarrow>
       lastSyncTime m' = (if push_success pu then Some now else lastSyncTime m) \<and>
       lastSyncResult m' =
         Some (if push_success pu
               then \<lparr>sync_success = True, sync_message = ''Sync completed'',
                     sync_pulled = Some (length (pull_files pr)),
                     sync_pushed = Some (pushed pu), sync_conflicts = None\<rparr>
               else \<lparr>sync_success = False, sync_message = push_message pu,
                     sync_pulled = None, sync_pushed = None, sync_conflicts = None\<rparr>)) \<and>
    (lastSyncTime m' = lastSyncTime m \<or>
     (\<exists>chk l1 l2 pr s3 pu s4.
        checkGitStatus sh g l = (Inr chk, l1) \<and> check_available chk \<and> check_isRepo chk \<and>
        hasConflicts sh g l1 = (Inr False, l2) \<and>
        pullOnly sh g (snd (updateStatus pulling ''Pulling changes...'' (m\<lparr>syncLock := True\<rparr>, l2))) =
          (Inr pr, s3) \<and>
        commitAndPush sh g msg
          (snd (updateStatus pushing ''Committing and pushing changes...'' s3)) = (Inr pu, s4) \<and>
        push_success pu \<and> lastSyncTime m' = Some now)) \<and>
    (\<not> syncLock m \<and> checkGitStatus sh g l = (Inr chk, l1) \<and> check_available chk \<and>
     check_isRepo chk \<and> hasConflicts sh g l1 = (Inr False, l2) \<and>
     pullOnly sh g (snd (updateStatus pulling ''Pulling changes...'' (m\<lparr>syncLock := True\<rparr>, l2))) =
       (Inl e, s3) \<longrightarrow>
       lastSyncTime m' = lastSyncTime m \<and>
       lastSyncResult m' =
         Some \<lparr>sync_success = False,
               sync_message = (if message e = [] then ''Unknown error during sync'' else message e),
               sync_pulled = None, sync_pushed = None, sync_conflicts = None\<rparr>) \<and>
    (lastSyncResult m' = lastSyncResult m \<or>
     (\<exists>chk l1 l2 rp s3.
        checkGitStatus sh g l = (Inr chk, l1) \<and> check_available chk \<and> check_isRepo chk \<and>
        hasConflicts sh g l1 = (Inr False, l2) \<and>
        pullOnly sh g (snd (updateStatus pulling ''Pulling changes...'' (m\<lparr>syncLock := True\<rparr>, l2))) =
          (rp, s3) \<and>
        (case rp of
           Inl e \<Rightarrow>
             lastSyncResult m' =
               Some \<lparr>sync_success = False,
                     sync_message =
                       (if message e = [] then ''Unknown error during sync'' else message e),
                     sync_pulled = None, sync_pushed = None, sync_conflicts = None\<rparr>
         | Inr pr \<Rightarrow>
             if \<not> pull_success pr \<and> pull_conflicts pr \<noteq> []
             then lastSyncResult m' =
                    Some \<lparr>sync_success = False, sync_message = ''Merge conflicts after pull'',
                          sync_pulled = None, sync_pushed = None,
                          sync_conflicts = Some (pull_conflicts pr)\<rparr>
             else (\<exists>pu s4.
                     commitAndPush sh g msg
                       (snd (updateStatus pushing ''Committing and pushing changes...'' s3)) =
                       (Inr pu, s4) \<and>
                     lastSyncResult m' =
                       Some (if push_success pu
                             then \<lparr>sync_success = True, sync_message = ''Sync completed'',
                                   sync_pulled = Some (length (pull_files pr)),
                                   sync_pushed = Some (pushed pu), sync_conflicts = None\<rparr>
                             else \<lparr>sync_success = False, sync_message = push_message pu,
                                   sync_pulled = None, sync_pushed = None,
                                   sync_conflicts = None\<rparr>)))))"
proof -
  have busy: "syncLock m \<longrightarrow> m' = m \<and> l' = l"
    using sync_when_busy [OF run] by blast
  have early: "\<not> syncLock m \<and> checkGitStatus sh g l = (Inr chk, l1) \<and>
     (\<not> check_available chk \<or> \<not> check_isRepo chk \<or> fst (hasConflicts sh g l1) = Inr True) \<longrightarrow>
       lastSyncTime m' = lastSyncTime m \<and> lastSyncResult m' = lastSyncResult m"
    using sync_early_abort [OF run] by blast
  have pullc: "\<not> syncLock m \<and> checkGitStatus sh g l = (Inr chk, l1) \<and> check_available chk \<and>
     check_isRepo chk \<and> hasConflicts sh g l1 = (Inr False, l2) \<and>
     pullOnly sh g (snd (updateStatus pulling ''Pulling changes...'' (m\<lparr>syncLock := True\<rparr>, l2))) =
       (Inr pr, s3) \<and>
     \<not> pull_success pr \<and> pull_conflicts pr \<noteq> [] \<longrightarrow>
       lastSyncTime m' = lastSyncTime m \<and>
       lastSyncResult m' =
         Some \<lparr>sync_success = False, sync_message = ''Merge conflicts after pull'',
               sync_pulled = None, sync_pushed = None,
               sync_conflicts = Some (pull_conflicts pr)\<rparr>"
    using sync_pull_conflict [OF run] by blast
  have step5: "\<not> syncLock m \<and> checkGitStatus sh g l = (Inr chk, l1) \<and> check_available chk \<and>
     check_isRepo chk \<and> hasConflicts sh g l1 = (Inr False, l2) \<and>
     pullOnly sh g (snd (updateStatus pulling ''Pulling changes...'' (m\<lparr>syncLock := True\<rparr>, l2))) =
       (Inr pr, s3) \<and>
     (pull_success pr \<or> pull_conflicts pr = []) \<and>
     commitAndPush sh g msg
       (snd (updateStatus pushing ''Committing and pushing changes...'' s3)) = (Inr pu, s4) \<longrightarrow>
       lastSyncTime m' = (if push_success pu then Some now else lastSyncTime m) \<and>
       lastSyncResult m' =
         Some (if push_success pu
               then \<lparr>sync_success = True, sync_message = ''Sync completed'',
                     sync_pulled = Some (length (pull_files pr)),
                     sync_pushed = Some (pushed pu), sync_conflicts = None\<rparr>
               else \<lparr>sync_success = False, sync_message = push_message pu,
                     sync_pulled = None, sync_pushed = None, sync_conflicts = None\<rparr>)"
    using sync_step5 [OF run] by blast
  have thrown: "\<not> syncLock m \<and> checkGitStatus sh g l = (Inr chk, l1) \<and> check_available chk \<and>
     check_isRepo chk \<and> hasConflicts sh g l1 = (Inr False, l2) \<and>
     pullOnly sh g (snd (updateStatus pulling ''Pulling changes...'' (m\<lparr>syncLock := True\<rparr>, l2))) =
       (Inl e, s3) \<longrightarrow>
       lastSyncTime m' = lastSyncTime m \<and>
       lastSyncResult m' =
         Some \<lparr>sync_success = False,
               sync_message = (if message e = [] then ''Unknown error during sync'' else message e),
               sync_pulled = None, sync_pushed = None, sync_conflicts = None\<rparr>"
    using sync_thrown [OF run] by blast
  obtain c k1 where c: "checkGitStatus sh g l = (Inr c, k1)"
    using checkGitStatus_returns by blast
  obtain hc k2 where h: "hasConflicts sh g k1 = (Inr hc, k2)"
    using hasConflicts_returns by blast
  obtain rp t3 where p: "pullOnly sh g (snd (updateStatus pulling ''Pulling changes...'' (m\<lparr>syncLock := True\<rparr>, k2))) = (rp, t3)"
    by (cases "pullOnly sh g (snd (updateStatus pulling ''Pulling changes...'' (m\<lparr>syncLock := True\<rparr>, k2)))")
  obtain pu t4 where u: "commitAndPush sh g msg (snd (updateStatus pushing ''Committing and pushing changes...'' t3)) = (Inr pu, t4)"
    using commitAndPush_returns by blast
  let ?timeSet = "\<exists>chk l1 l2 pr s3 pu s4.
        checkGitStatus sh g l = (Inr chk, l1) \<and> check_available chk \<and> check_isRepo chk \<and>
        hasConflicts sh g l1 = (Inr False, l2) \<and>
        pullOnly sh g (snd (updateStatus pulling ''Pulling changes...'' (m\<lparr>syncLock := True\<rparr>, l2))) =
          (Inr pr, s3) \<and>
        commitAndPush sh g msg
          (snd (updateStatus pushing ''Committing and pushing changes...'' s3)) = (Inr pu, s4) \<and>
        push_success pu \<and> lastSyncTime m' = Some now"
  let ?paths = "\<lambda>rp s3. case rp of
           Inl e \<Rightarrow>
             lastSyncResult m' =
               Some \<lparr>sync_success = False,
                     sync_message =
                       (if message e = [] then ''Unknown error during sync'' else message e),
                     sync_pulled = None, sync_pushed = None, sync_conflicts = None\<rparr>
         | Inr pr \<Rightarrow>
             if \<not> pull_success pr \<and> pull_conflicts pr \<noteq> []
             then lastSyncResult m' =
                    Some \<lparr>sync_success = False, sync_message = ''Merge conflicts after pull'',
                          sync_pulled = None, sync_pushed = None,
                          sync_conflicts = Some (pull_conflicts pr)\<rparr>
             else (\<exists>pu s4.
                     commitAndPush sh g msg
                       (snd (updateStatus pushing ''Committing and pushing changes...'' s3)) =
                       (Inr pu, s4) \<and>
                     lastSyncResult m' =
                       Some (if push_success pu
                             then \<lparr>sync_success = True, sync_message = ''Sync completed'',
                                   sync_pulled = Some (length (pull_files pr)),
                                   sync_pushed = Some (pushed pu), sync_conflicts = None\<rparr>
                             else \<lparr>sync_success = False, sync_message = push_message pu,
                                   sync_pulled = None, sync_pushed = None,
                                   sync_conflicts = None\<rparr>))"
  let ?resSet = "\<exists>chk l1 l2 rp s3.
        checkGitStatus sh g l = (Inr chk, l1) \<and> check_available chk \<and> check_isRepo chk \<and>
        hasConflicts sh g l1 = (Inr False, l2) \<and>
        pullOnly sh g (snd (updateStatus pulling ''Pulling changes...'' (m\<lparr>syncLock := True\<rparr>, l2))) =
          (rp, s3) \<and> ?paths rp s3"
  have both: "(lastSyncTime m' = lastSyncTime m \<or> ?timeSet) \<and>
              (lastSyncResult m' = lastSyncResult m \<or> ?resSet)"
  proof (cases "syncLock m")
    case True
    then have "m' = m" using sync_when_busy [OF run] by blast
    then show ?thesis by simp
  next
    case unlocked: False
    show ?thesis
    proof (cases "check_available c \<and> check_isRepo c \<and> \<not> hc")
      case False
      then have "\<not> check_available c \<or> \<not> check_isRepo c \<or> fst (hasConflicts sh g k1) = Inr True"
        using h by auto
      then have "lastSyncTime m' = lastSyncTime m \<and> lastSyncResult m' = lastSyncResult m"
        using sync_early_abort [OF run unlocked c] by blast
      then show ?thesis by simp
    next
      case ok: True
      then have h': "hasConflicts sh g k1 = (Inr False, k2)" using h by simp
      note pre = run unlocked c ok [THEN conjunct1] ok [THEN conjunct2, THEN conjunct1] h'
      show ?thesis
      proof (cases rp)
        case (Inl e)
        then have pe: "pullOnly sh g (snd (updateStatus pulling ''Pulling changes...'' (m\<lparr>syncLock := True\<rparr>, k2))) = (Inl e, t3)"
          using p by simp
        have r: "lastSyncTime m' = lastSyncTime m \<and>
           lastSyncResult m' =
             Some \<lparr>sync_success = False,
                   sync_message = (if message e = [] then ''Unknown error during sync'' else message e),
                   sync_pulled = None, sync_pushed = None, sync_conflicts = None\<rparr>"
          using sync_thrown [OF pre pe] .
        have "checkGitStatus sh g l = (Inr c, k1) \<and> check_available c \<and> check_isRepo c \<and>
          hasConflicts sh g k1 = (Inr False, k2) \<and>
          pullOnly sh g (snd (updateStatus pulling ''Pulling changes...'' (m\<lparr>syncLock := True\<rparr>, k2))) = (rp, t3) \<and> ?paths rp t3"
          using c ok h' p r Inl by simp
        then have "?resSet" by (intro exI)
        then show ?thesis using r by simp
      next
        case (Inr pr)
        then have pr: "pullOnly sh g (snd (updateStatus pulling ''Pulling changes...'' (m\<lparr>syncLock := True\<rparr>, k2))) = (Inr pr, t3)"
          using p by simp
        show ?thesis
        proof (cases "\<not> pull_success pr \<and> pull_conflicts pr \<noteq> []")
          case True
          have r: "lastSyncTime m' = lastSyncTime m \<and>
             lastSyncResult m' =
               Some \<lparr>sync_success = False, sync_message = ''Merge conflicts after pull'',
                     sync_pulled = None, sync_pushed = None,
                     sync_conflicts = Some (pull_conflicts pr)\<rparr>"
            using sync_pull_conflict [OF pre pr True [THEN conjunct1] True [THEN conjunct2]] .
          have "checkGitStatus sh g l = (Inr c, k1) \<and> check_available c \<and> check_isRepo c \<and>
            hasConflicts sh g k1 = (Inr False, k2) \<and>
            pullOnly sh g (snd (updateStatus pulling ''Pulling changes...'' (m\<lparr>syncLock := True\<rparr>, k2))) = (rp, t3) \<and> ?paths rp t3"
            using c ok h' p r Inr True by simp
          then have "?resSet" by (intro exI)
          then show ?thesis using r by simp
        next
          case False
          then have np: "pull_success pr \<or> pull_conflicts pr = []" by blast
          have r: "lastSyncTime m' = (if push_success pu then Some now else lastSyncTime m) \<and>
             lastSyncResult m' =
               Some (if push_success pu
                     then \<lparr>sync_success = True, sync_message = ''Sync completed'',
                           sync_pulled = Some (length (pull_files pr)),
                           sync_pushed = Some (pushed pu), sync_conflicts = None\<rparr>
                     else \<lparr>sync_success = False, sync_message = push_message pu,
                           sync_pulled = None, sync_pushed = None, sync_conflicts = None\<rparr>)"
            using sync_step5 [OF pre pr np u] .
          have "checkGitStatus sh g l = (Inr c, k1) \<and> check_available c \<and> check_isRepo c \<and>
            hasConflicts sh g k1 = (Inr False, k2) \<and>
            pullOnly sh g (snd (updateStatus pulling ''Pulling changes...'' (m\<lparr>syncLock := True\<rparr>, k2))) = (rp, t3) \<and> ?paths rp t3"
            using c ok h' p r Inr False u by auto
          then have res: "?resSet" by (intro exI)
          have time: "lastSyncTime m' = lastSyncTime m \<or> ?timeSet"
          proof (cases "push_success pu")
            case True
            have "checkGitStatus sh g l = (Inr c, k1) \<and> check_available c \<and> check_isRepo c \<and>
              hasConflicts sh g k1 = (Inr False, k2) \<and>
              pullOnly sh g (snd (updateStatus pulling ''Pulling changes...'' (m\<lparr>syncLock := True\<rparr>, k2))) = (Inr pr, t3) \<and>
              commitAndPush sh g msg (snd (updateStatus pushing ''Committing and pushing changes...'' t3)) = (Inr pu, t4) \<and>
              push_success pu \<and> lastSyncTime m' = Some now"
              using c ok h' pr u r True by simp
            then have "?timeSet" by (intro exI)
            then show ?thesis by (rule disjI2)
          next
            case False
            then show ?thesis using r by simp
          qed
          show ?thesis using time res by blast
        qed
      qed
    qed
  qed
  show ?thesis
    by (rule conjI [OF busy conjI [OF early conjI [OF pullc conjI [OF step5
          conjI [OF both [THEN conjunct1] conjI [OF thrown both [THEN conjunct2]]]]]]])
qed

theorem sync_record_updates_witness:
  "snd (sync noRemoteShell exampleGit ''backup'' 2000 (busyManager, [])) = (busyManager, []) \<and>
   lastSyncTime (fst (snd (sync conflictedShell exampleGit ''backup'' 2000 (idleManager, [])))) = None \<and>
   lastSyncResult (fst (snd (sync conflictedShell exampleGit ''backup'' 2000 (idleManager, [])))) = None \<and>
   lastSyncTime (fst (snd (sync pullConflictShell exampleGit ''backup'' 2000 (idleManager, [])))) = None \<and>
   lastSyncResult (fst (snd (sync pullConflictShell exampleGit ''backup'' 2000 (idleManager, [])))) =
     Some \<lparr>sync_success = False, sync_message = ''Merge conflicts after pull'',
           sync_pulled = None, sync_pushed = None, sync_conflicts = Some [''notes.md'']\<rparr> \<and>
   lastSyncTime (fst (snd (sync happyShell exampleGit ''backup'' 2000 (idleManager, [])))) = Some 2000 \<and>
   lastSyncResult (fst (snd (sync happyShell exampleGit ''backup'' 2000 (idleManager, [])))) =
     Some \<lparr>sync_success = True, sync_message = ''Sync completed'',
           sync_pulled = Some 0, sync_pushed = Some 1, sync_conflicts = None\<rparr> \<and>
   lastSyncTime (fst (snd (sync offlineShell exampleGit ''backup'' 2000 (idleManager, [])))) = None \<and>
   lastSyncResult (fst (snd (sync offlineShell exampleGit ''backup'' 2000 (idleManager, [])))) =
     Some \<lparr>sync_success = False, sync_message = ''Command failed'',
           sync_pulled = None, sync_pushed = None, sync_conflicts = None\<rparr>"
proof -
  have idle: "\<not> syncLock idleManager" "lastSyncTime idleManager = None"
      "lastSyncResult idleManager = None"
    by (simp_all add: idleManager_def)
  have busy: "syncLock busyManager"
    by (simp add: busyManager_def)
  note a = sync_record_updates [OF sync_collapse, where sh = noRemoteShell and g = exampleGit
      and msg = "''backup''" and now = 2000 and m = busyManager and l = "[]", THEN conjunct1]
  note b = sync_record_updates [OF sync_collapse, where sh = conflictedShell and g = exampleGit
      and msg = "''backup''" and now = 2000 and m = idleManager and l = "[]"
      and chk = "\<lparr>check_available = True, check_isRepo = True, check_error = None\<rparr>"
      and ?l1.0 = probeLog, THEN conjunct2, THEN conjunct1]
  note c = sync_record_updates [OF sync_collapse, where sh = pullConflictShell and g = exampleGit
      and msg = "''backup''" and now = 2000 and m = idleManager and l = "[]"
      and chk = "\<lparr>check_available = True, check_isRepo = True, check_error = None\<rparr>"
      and ?l1.0 = probeLog and ?l2.0 = "probeLog @ [diffCommand]"
      and pr = "\<lparr>pull_success = False, pull_message = ''Merge conflicts detected'',
           pull_files = [], pull_conflicts = [''notes.md'']\<rparr>"
      and ?s3.0 = "(conflictManager, conflictLog)",
      THEN conjunct2, THEN conjunct2, THEN conjunct1]
  note d = sync_record_updates [OF sync_collapse, where sh = happyShell and g = exampleGit
      and msg = "''backup''" and now = 2000 and m = idleManager and l = "[]"
      and chk = "\<lparr>check_available = True, check_isRepo = True, check_error = None\<rparr>"
      and ?l1.0 = probeLog and ?l2.0 = "probeLog @ [diffCommand]"
      and pr = "\<lparr>pull_success = True, pull_message = ''Already up to date'',
           pull_files = [], pull_conflicts = []\<rparr>"
      and ?s3.0 = "(pullingManager, pulledLog)"
      and pu = "\<lparr>push_success = True, push_message = msgPushOk, pushed = 1\<rparr>"
      and ?s4.0 = "(pushedManager, pushedLog)",
      THEN conjunct2, THEN conjunct2, THEN conjunct2, THEN conjunct1]
  note e = sync_record_updates [OF sync_collapse, where sh = offlineShell and g = exampleGit
      and msg = "''backup''" and now = 2000 and m = idleManager and l = "[]"
      and chk = "\<lparr>check_available = True, check_isRepo = True, check_error = None\<rparr>"
      and ?l1.0 = probeLog and ?l2.0 = "probeLog @ [diffCommand]"
      and e = offlineError and ?s3.0 = "(pullingManager, offlineLog)",
      THEN conjunct2, THEN conjunct2, THEN conjunct2, THEN conjunct2, THEN conjunct2,
      THEN conjunct1]
  have w1: "snd (sync noRemoteShell exampleGit ''backup'' 2000 (busyManager, [])) =
      (busyManager, [])"
    using a busy by (simp add: prod_eq_iff)
  have w2: "lastSyncTime (fst (snd (sync conflictedShell exampleGit ''backup'' 2000 (idleManager, [])))) = None \<and>
   lastSyncResult (fst (snd (sync conflictedShell exampleGit ''backup'' 2000 (idleManager, [])))) = None"
    using b idle cf_check cf_conflicts by simp
  have w3: "lastSyncTime (fst (snd (sync pullConflictShell exampleGit ''backup'' 2000 (idleManager, [])))) = None \<and>
   lastSyncResult (fst (snd (sync pullConflictShell exampleGit ''backup'' 2000 (idleManager, [])))) =
     Some \<lparr>sync_success = False, sync_message = ''Merge conflicts after pull'',
           sync_pulled = None, sync_pushed = None, sync_conflicts = Some [''notes.md'']\<rparr>"
    using c idle pc_check pc_conflicts pc_start pc_pullOnly by simp
  have w4: "lastSyncTime (fst (snd (sync happyShell exampleGit ''backup'' 2000 (idleManager, [])))) = Some 2000 \<and>
   lastSyncResult (fst (snd (sync happyShell exampleGit ''backup'' 2000 (idleManager, [])))) =
     Some \<lparr>sync_success = True, sync_message = ''Sync completed'',
           sync_pulled = Some 0, sync_pushed = Some 1, sync_conflicts = None\<rparr>"
    using d idle hp_check hp_conflicts pc_start hp_pullOnly hp_step hp_commitAndPush by simp
  have w5: "lastSyncTime (fst (snd (sync offlineShell exampleGit ''backup'' 2000 (idleManager, [])))) = None \<and>
   lastSyncResult (fst (snd (sync offlineShell exampleGit ''backup'' 2000 (idleManager, [])))) =
     Some \<lparr>sync_success = False, sync_message = ''Command failed'',
           sync_pulled = None, sync_pushed = None, sync_conflicts = None\<rparr>"
    using e idle of_check of_conflicts pc_start of_pullOnly by (simp add: offlineError_def)
  from w1 w2 w3 w4 w5 show ?thesis by simp
qed

text \<open>
  C5 as stated fails: in this run \<open>pullOnly\<close> reports a conflict, the sync stops before
  \<open>commitAndPush\<close>, and \<open>lastSyncResult\<close> has changed from \<open>None\<close> to the conflict verdict.
  (A run where \<open>pullOnly\<close> throws, as on \<open>offlineShell\<close>, changes it before
  \<open>commitAndPush\<close> as well.)
\<close>

theorem sync_pull_conflict_counterexample:
  "lastSyncResult idleManager = None \<and>
   sync pullConflictShell exampleGit ''backup'' 2000 (idleManager, []) =
     (Inr \<lparr>sync_success = False, sync_message = ''Merge conflicts after pull'',
           sync_pulled = None, sync_pushed = None, sync_conflicts = Some [''notes.md'']\<rparr>,
      (\<lparr>syncLock = False, lastSyncTime = None,
        lastSyncResult =
          Some \<lparr>sync_success = False, sync_message = ''Merge conflicts after pull'',
                sync_pulled = None, sync_pushed = None,
                sync_conflicts = Some [''notes.md'']\<rparr>,
        onStatusChange = True,
        statusCalls = [(pulling, ''Pulling changes...''), (pulling, ''Pulling changes...''),
                       (conflict, ''Merge conflicts detected'')]\<rparr>,
       conflictLog))"
proof -
  have u: "updateStatus pulling ''Pulling changes...''
      (idleManager\<lparr>syncLock := True\<rparr>, probeLog @ [diffCommand]) =
      (Inr (), (pullingManager, probeLog @ [diffCommand]))"
    by (simp add: updateStatus_def modifyM_def idleManager_def pullingManager_def)
  show ?thesis
    using pc_check pc_conflicts u pc_pullOnly
    by (simp add: sync_def syncTry_def syncCatch_def setLastSyncResult_def liftG_def op_defs
          idleManager_def conflictManager_def updateStatus_def [of conflict] modifyM_def)
qed

end
